theory Spec2Isabelle
  imports Complex_Main "HOL-Library.Multiset"
begin

section \<open>Data model of the album editor (src/contexts/AlbumContext.tsx)\<close>

text \<open>
  JavaScript numbers that hold geometry (percentages, sizes, angles) are modelled as
  reals; numbers that hold counters, indices, page numbers and stacking order are
  modelled as integers. A property declared optional in the TypeScript interface
  (\<^verbatim>\<open>scale?: number\<close>) is an option, \<open>None\<close> standing for an absent property.
  A \<^verbatim>\<open>Date\<close> is its timestamp. Field names follow the source; a prefix is added where
  two interfaces share a name (\<^verbatim>\<open>id\<close>, \<^verbatim>\<open>x\<close>, \<^verbatim>\<open>y\<close>, \<^verbatim>\<open>type\<close>, \<^verbatim>\<open>name\<close>, \<^verbatim>\<open>filter\<close>).
\<close>

datatype AssetType = Image | Video | Ribbon | Frame | Text | Sticker | Shape

datatype FitMode = Fit | Fill | Original | Cover | Stretch

text \<open>
  The interface \<^verbatim>\<open>Asset\<close>. The properties that no function modelled below reads or
  writes by name (clip points, the tone adjustments, the remaining text properties, the
  AI effect fields, \<^verbatim>\<open>slotId\<close>, \<^verbatim>\<open>id_name\<close>, \<^verbatim>\<open>isLocked\<close>, \<^verbatim>\<open>isStamp\<close>, \<^verbatim>\<open>category\<close>) are
  carried as one association list \<open>other_props\<close>: an object spread copies them along.
\<close>

record Asset =
  asset_id :: string
  asset_type :: AssetType
  url :: string
  pos_x :: real
  pos_y :: real
  width :: real
  height :: real
  rotation :: real
  scale :: "real option"
  zIndex :: int
  flipX :: "bool option"
  flipY :: "bool option"
  opacity :: "real option"
  aspectRatio :: "real option"
  lockAspectRatio :: "bool option"
  pivot :: "(real \<times> real) option"
  isPlaceholder :: "bool option"
  fitMode :: "FitMode option"
  originalDimensions :: "(real \<times> real) option"
  filter_name :: "string option"
  filterIntensity :: "real option"
  fontFamily :: "string option"
  fontSize :: "real option"
  fontWeight :: "(string + real) option"
  color :: "string option"
  borderRadius :: "real option"
  borderColor :: "string option"
  borderWidth :: "real option"
  crop :: "(real \<times> real \<times> real \<times> real \<times> real) option"
  isHidden :: "bool option"
  other_props :: "(string \<times> string) list"

datatype Unit = Px | In | Cm

record Dimensions =
  dim_width :: real
  dim_height :: real
  dim_unit :: Unit
  dim_bleed :: real
  dim_gutter :: real

record GridSettings =
  grid_size :: real
  snap :: bool
  visible :: bool

record AlbumConfig =
  dimensions :: Dimensions
  useSpreadView :: bool
  gridSettings :: GridSettings
  styleSync :: "bool option"
  isLocked :: "bool option"

record Page =
  page_id :: string
  pageNumber :: int
  layoutTemplate :: string
  assets :: "Asset list"
  backgroundColor :: string
  backgroundOpacity :: "real option"
  backgroundImage :: "string option"
  page_name :: "string option"

text \<open>
  An element of \<^verbatim>\<open>album.pages\<close>. The type \<^verbatim>\<open>Page[]\<close> is not enforced at run time:
  \<^verbatim>\<open>reorderPages\<close> spreads \<^verbatim>\<open>undefined\<close> into an object literal when its source index is
  out of range, which stores an object whose only property is \<^verbatim>\<open>pageNumber\<close>. Such an
  element is \<open>OnlyNumber n\<close>; every other property read on it yields \<^verbatim>\<open>undefined\<close>.
\<close>

datatype PageEntry = Full Page | OnlyNumber int

record Album =
  album_id :: string
  family_id :: string
  title :: string
  description :: "string option"
  album_category :: "string option"
  coverUrl :: "string option"
  pages :: "PageEntry list"
  unplacedMedia :: "Asset list"
  hashtags :: "string list"
  config :: AlbumConfig
  createdAt :: int
  updatedAt :: int
  isPublished :: bool
  location :: "string option"
  country :: "string option"
  geotag :: "(real \<times> real) option"

text \<open>
  The React state of \<^verbatim>\<open>AlbumProvider\<close>: the aggregate, the two history stacks, the
  focused page and the selection. (The flags \<^verbatim>\<open>isSaving\<close>, \<^verbatim>\<open>isLoading\<close> and the
  upload progress table are display state and are left out.)
\<close>

record Store =
  album :: "Album option"
  history :: "Album list"
  redoStack :: "Album list"
  currentPageIndex :: int
  selectedAssetId :: "string option"

datatype Direction = DirLeft | DirRight

datatype ZDirection = Front | Back

datatype error = TypeError

subsection \<open>Property reads on page entries\<close>

definition entry_id :: "PageEntry \<Rightarrow> string option" where
  "entry_id e = (case e of Full p \<Rightarrow> Some (page_id p) | OnlyNumber _ \<Rightarrow> None)"

definition entry_template :: "PageEntry \<Rightarrow> string option" where
  "entry_template e = (case e of Full p \<Rightarrow> Some (layoutTemplate p) | OnlyNumber _ \<Rightarrow> None)"

definition entry_number :: "PageEntry \<Rightarrow> int" where
  "entry_number e = (case e of Full p \<Rightarrow> pageNumber p | OnlyNumber n \<Rightarrow> n)"

text \<open>\<^verbatim>\<open>album.config.isLocked\<close> used as a condition: true only for the value \<^verbatim>\<open>true\<close>.\<close>

definition locked :: "Album \<Rightarrow> bool" where
  "locked a = (isLocked (config a) = Some True)"

subsection \<open>Array primitives\<close>

text \<open>\<^verbatim>\<open>xs.findIndex(P)\<close>: the first index whose element satisfies \<open>P\<close>, or \<open>-1\<close>.\<close>

fun findIndex :: "('a \<Rightarrow> bool) \<Rightarrow> 'a list \<Rightarrow> int" where
  "findIndex P [] = -1"
| "findIndex P (x # xs) =
     (if P x then 0 else (let r = findIndex P xs in if r = -1 then -1 else r + 1))"

text \<open>
  The start position of \<^verbatim>\<open>xs.splice(start, ...)\<close>: a negative start counts from the
  end, and the result is clamped into \<open>0..length xs\<close>.
\<close>

definition splice_start :: "int \<Rightarrow> nat \<Rightarrow> nat" where
  "splice_start start len =
     (if start < 0 then nat (max (int len + start) 0) else min (nat start) len)"

text \<open>
  \<^verbatim>\<open>const [moved] = xs.splice(start, 1)\<close>: the removed element (\<open>None\<close> for
  \<^verbatim>\<open>undefined\<close>, when nothing was removed) and the array that is left.
\<close>

definition splice_remove1 :: "'a list \<Rightarrow> int \<Rightarrow> 'a option \<times> 'a list" where
  "splice_remove1 xs start =
     (let k = splice_start start (length xs)
      in if k < length xs then (Some (xs ! k), take k xs @ drop (Suc k) xs) else (None, xs))"

text \<open>\<^verbatim>\<open>xs.splice(start, 0, ...items)\<close>: the array after the insertion.\<close>

definition splice_insert :: "'a list \<Rightarrow> int \<Rightarrow> 'a list \<Rightarrow> 'a list" where
  "splice_insert xs start items =
     (let k = splice_start start (length xs) in take k xs @ items @ drop k xs)"

text \<open>
  \<^verbatim>\<open>newPages.map((p, i) => ({ ...p, pageNumber: i + 1 }))\<close> on an array whose elements
  may be \<^verbatim>\<open>undefined\<close> (\<open>None\<close>): spreading \<^verbatim>\<open>undefined\<close> contributes no property.
\<close>

definition withPageNumber :: "int \<Rightarrow> PageEntry option \<Rightarrow> PageEntry" where
  "withPageNumber n e =
     (case e of
        Some (Full p) \<Rightarrow> Full (p\<lparr>pageNumber := n\<rparr>)
      | Some (OnlyNumber _) \<Rightarrow> OnlyNumber n
      | None \<Rightarrow> OnlyNumber n)"

definition renumber_js :: "PageEntry option list \<Rightarrow> PageEntry list" where
  "renumber_js ps = map (\<lambda>(i, p). withPageNumber (int i + 1) p) (enumerate 0 ps)"

definition renumber :: "PageEntry list \<Rightarrow> PageEntry list" where
  "renumber ps = renumber_js (map Some ps)"

text \<open>\<^verbatim>\<open>p.id === pageId ? f(p) : p\<close> inside a \<^verbatim>\<open>pages.map\<close>.\<close>

definition onPage :: "string \<Rightarrow> (Page \<Rightarrow> Page) \<Rightarrow> PageEntry \<Rightarrow> PageEntry" where
  "onPage pageId f e =
     (case e of Full p \<Rightarrow> if page_id p = pageId then Full (f p) else e | OnlyNumber _ \<Rightarrow> e)"

text \<open>\<^verbatim>\<open>album.pages.find(p => p.id === pageId)\<close>.\<close>

fun find_page :: "string \<Rightarrow> PageEntry list \<Rightarrow> Page option" where
  "find_page pageId [] = None"
| "find_page pageId (Full p # es) = (if page_id p = pageId then Some p else find_page pageId es)"
| "find_page pageId (OnlyNumber n # es) = find_page pageId es"

subsection \<open>The controlled setter and the history (lines 217-250)\<close>

text \<open>
  \<^verbatim>\<open>setAlbum\<close> compares references (\<^verbatim>\<open>prev !== resolved\<close>). Values of HOL have no
  identity, so the argument says which case holds: \<open>SameRef\<close> when the updater hands
  back \<^verbatim>\<open>prev\<close> itself, \<open>Fresh r\<close> when it yields a newly built object or \<^verbatim>\<open>null\<close>
  (an object literal is never identical to \<^verbatim>\<open>prev\<close>).
\<close>

datatype Resolved = SameRef | Fresh "Album option"

definition setAlbum :: "(Album option \<Rightarrow> Resolved) \<Rightarrow> Store \<Rightarrow> Store" where
  "setAlbum newAlbum s =
     (case newAlbum (album s) of
        SameRef \<Rightarrow> s
      | Fresh resolved \<Rightarrow>
          (case (album s, resolved) of
             (Some prev, Some r) \<Rightarrow>
               s\<lparr>album := Some r,
                 history := drop (length (history s) - 19) (history s) @ [prev],
                 redoStack := []\<rparr>
           | _ \<Rightarrow> s\<lparr>album := resolved\<rparr>))"

definition undo :: "Store \<Rightarrow> Store" where
  "undo s =
     (if history s = [] then s
      else s\<lparr>album := Some (last (history s)),
             redoStack := (case album s of Some current \<Rightarrow> redoStack s @ [current]
                           | None \<Rightarrow> redoStack s),
             history := butlast (history s)\<rparr>)"

definition redo :: "Store \<Rightarrow> Store" where
  "redo s =
     (if redoStack s = [] then s
      else s\<lparr>album := Some (last (redoStack s)),
             history := (case album s of Some current \<Rightarrow> history s @ [current]
                         | None \<Rightarrow> history s),
             redoStack := butlast (redoStack s)\<rparr>)"

subsection \<open>Store operations (lines 252-752, 1042-1068)\<close>

text \<open>
  Conventions for what the operations take from outside:
  \<^item> \<open>gen k\<close> is the value of the \<open>k\<close>-th call of \<^verbatim>\<open>generateId()\<close> made by the operation
    (\<^verbatim>\<open>crypto.randomUUID()\<close>), counted from 0 in evaluation order;
  \<^item> \<open>now\<close> is the value of \<^verbatim>\<open>new Date()\<close>;
  \<^item> a \<^verbatim>\<open>Partial<T>\<close> argument \<^verbatim>\<open>updates\<close> is given by the override it performs,
    the function \<^verbatim>\<open>t => ({ ...t, ...updates })\<close>;
  \<^item> the callbacks are rebuilt whenever \<^verbatim>\<open>album\<close> changes, and an operation is taken to
    be called from the current render: its closure variable \<^verbatim>\<open>album\<close> is the current
    state \<open>album s\<close>. The exception is \<^verbatim>\<open>uploadMedia\<close>, which reads its closure on entry
    and writes only after it has awaited the uploads: its closure is an argument of its
    own, apart from the state in which its updater runs.
\<close>

text \<open>An \<^verbatim>\<open>Asset\<close> literal that sets the required properties only.\<close>

definition mkAsset ::
  "string \<Rightarrow> AssetType \<Rightarrow> string \<Rightarrow> real \<Rightarrow> real \<Rightarrow> real \<Rightarrow> real \<Rightarrow> real \<Rightarrow> int \<Rightarrow> Asset" where
  "mkAsset i t u px py w h r z =
     \<lparr>asset_id = i, asset_type = t, url = u, pos_x = px, pos_y = py, width = w, height = h,
      rotation = r, scale = None, zIndex = z, flipX = None, flipY = None, opacity = None,
      aspectRatio = None, lockAspectRatio = None, pivot = None, isPlaceholder = None,
      fitMode = None, originalDimensions = None, filter_name = None, filterIntensity = None,
      fontFamily = None, fontSize = None, fontWeight = None, color = None,
      borderRadius = None, borderColor = None, borderWidth = None, crop = None,
      isHidden = None, other_props = []\<rparr>"

definition blankPage :: "string \<Rightarrow> int \<Rightarrow> string \<Rightarrow> Page" where
  "blankPage i n template =
     \<lparr>page_id = i, pageNumber = n, layoutTemplate = template, assets = [],
      backgroundColor = ''#ffffff'', backgroundOpacity = None, backgroundImage = None,
      page_name = None\<rparr>"

definition addPage :: "(nat \<Rightarrow> string) \<Rightarrow> int \<Rightarrow> string option \<Rightarrow> Store \<Rightarrow> Store" where
  "addPage gen now template_arg s =
     (case album s of None \<Rightarrow> s | Some a \<Rightarrow>
        if locked a then s
        else
          let template = (case template_arg of None \<Rightarrow> ''freeform'' | Some t \<Rightarrow> t);
              backCoverIndex = findIndex (\<lambda>p. entry_template p = Some ''cover-back'') (pages a);
              insertIndex = (if backCoverIndex \<noteq> -1 then backCoverIndex
                             else int (length (pages a)));
              newPage1 = blankPage (gen 0) (insertIndex + 1) template;
              newPage2 = blankPage (gen 1) (insertIndex + 2) template;
              newPages = splice_insert (pages a) insertIndex [Full newPage1, Full newPage2]
          in (setAlbum (\<lambda>_. Fresh (Some (a\<lparr>pages := renumber newPages, updatedAt := now\<rparr>))) s)
               \<lparr>currentPageIndex := insertIndex\<rparr>)"

definition removePage :: "int \<Rightarrow> string \<Rightarrow> Store \<Rightarrow> Store" where
  "removePage now pageId s =
     (case album s of None \<Rightarrow> s | Some a \<Rightarrow>
        if length (pages a) \<le> 1 \<or> locked a then s
        else
          let newPages = filter (\<lambda>p. entry_id p \<noteq> Some pageId) (pages a)
          in (setAlbum (\<lambda>_. Fresh (Some (a\<lparr>pages := renumber newPages, updatedAt := now\<rparr>))) s)
               \<lparr>currentPageIndex := max 0 (currentPageIndex s - 1)\<rparr>)"

definition updatePage :: "int \<Rightarrow> string \<Rightarrow> (Page \<Rightarrow> Page) \<Rightarrow> Store \<Rightarrow> Store" where
  "updatePage now pageId updates s =
     (case album s of None \<Rightarrow> s | Some a \<Rightarrow>
        if locked a then s
        else setAlbum (\<lambda>_. Fresh (Some (a\<lparr>pages := map (onPage pageId updates) (pages a),
                                            updatedAt := now\<rparr>))) s)"

text \<open>The argument \<open>asset\<close> is an \<^verbatim>\<open>Omit<Asset, 'id'>\<close>: its \<open>asset_id\<close> is overwritten.\<close>

definition addAsset :: "(nat \<Rightarrow> string) \<Rightarrow> int \<Rightarrow> string \<Rightarrow> Asset \<Rightarrow> Store \<Rightarrow> Store" where
  "addAsset gen now pageId asset s =
     (case album s of None \<Rightarrow> s | Some a \<Rightarrow>
        if locked a then s
        else
          let newAsset = asset\<lparr>asset_id := gen 0\<rparr>
          in (setAlbum (\<lambda>_. Fresh (Some
                (a\<lparr>pages := map (onPage pageId (\<lambda>p. p\<lparr>assets := assets p @ [newAsset]\<rparr>)) (pages a),
                   updatedAt := now\<rparr>))) s)
               \<lparr>selectedAssetId := Some (asset_id newAsset)\<rparr>)"

definition updateAsset :: "int \<Rightarrow> string \<Rightarrow> string \<Rightarrow> (Asset \<Rightarrow> Asset) \<Rightarrow> Store \<Rightarrow> Store" where
  "updateAsset now pageId assetId updates s =
     (case album s of None \<Rightarrow> s | Some a \<Rightarrow>
        if locked a then s
        else setAlbum (\<lambda>_. Fresh (Some
               (a\<lparr>pages := map (onPage pageId (\<lambda>p. p\<lparr>assets :=
                               map (\<lambda>x. if asset_id x = assetId then updates x else x) (assets p)\<rparr>))
                             (pages a),
                  updatedAt := now\<rparr>))) s)"

definition removeAsset :: "int \<Rightarrow> string \<Rightarrow> string \<Rightarrow> Store \<Rightarrow> Store" where
  "removeAsset now pageId assetId s =
     (case album s of None \<Rightarrow> s | Some a \<Rightarrow>
        if locked a then s
        else
          let s' = setAlbum (\<lambda>_. Fresh (Some
                     (a\<lparr>pages := map (onPage pageId (\<lambda>p. p\<lparr>assets :=
                                     filter (\<lambda>x. asset_id x \<noteq> assetId) (assets p)\<rparr>)) (pages a),
                        updatedAt := now\<rparr>))) s
          in if selectedAssetId s = Some assetId then s'\<lparr>selectedAssetId := None\<rparr> else s')"

definition duplicateAsset :: "(nat \<Rightarrow> string) \<Rightarrow> int \<Rightarrow> string \<Rightarrow> string \<Rightarrow> Store \<Rightarrow> Store" where
  "duplicateAsset gen now pageId assetId s =
     (case album s of None \<Rightarrow> s | Some a \<Rightarrow>
        if locked a then s
        else
          (case find_page pageId (pages a) of None \<Rightarrow> s | Some page \<Rightarrow>
             (case find (\<lambda>x. asset_id x = assetId) (assets page) of None \<Rightarrow> s
              | Some sourceAsset \<Rightarrow>
                  let newAsset = sourceAsset\<lparr>asset_id := gen 0,
                                             pos_x := pos_x sourceAsset + 20,
                                             pos_y := pos_y sourceAsset + 20,
                                             zIndex := zIndex sourceAsset + 1\<rparr>
                  in (setAlbum (\<lambda>_. Fresh (Some
                        (a\<lparr>pages := map (onPage pageId
                                          (\<lambda>p. p\<lparr>assets := assets p @ [newAsset]\<rparr>)) (pages a),
                           updatedAt := now\<rparr>))) s)
                       \<lparr>selectedAssetId := Some (asset_id newAsset)\<rparr>)))"

text \<open>
  \<^verbatim>\<open>Math.max(...page.assets.map(a => a.zIndex), 0)\<close> and its \<^verbatim>\<open>Math.min\<close> twin: the
  literal \<open>0\<close> is one of the arguments.
\<close>

definition maxZ :: "Asset list \<Rightarrow> int" where
  "maxZ as = fold max (map zIndex as) 0"

definition minZ :: "Asset list \<Rightarrow> int" where
  "minZ as = fold min (map zIndex as) 0"

definition updateAssetZIndex :: "int \<Rightarrow> string \<Rightarrow> string \<Rightarrow> ZDirection \<Rightarrow> Store \<Rightarrow> Store" where
  "updateAssetZIndex now pageId assetId direction s =
     (case album s of None \<Rightarrow> s | Some a \<Rightarrow>
        if locked a then s
        else
          (case find_page pageId (pages a) of None \<Rightarrow> s | Some page \<Rightarrow>
             (case find (\<lambda>x. asset_id x = assetId) (assets page) of None \<Rightarrow> s
              | Some asset \<Rightarrow>
                  let newZIndex = (if direction = Front then maxZ (assets page) + 1
                                   else minZ (assets page) - 1)
                  in updateAsset now pageId assetId (\<lambda>x. x\<lparr>zIndex := newZIndex\<rparr>) s)))"

text \<open>
  \<^verbatim>\<open>uploadMedia\<close> (lines 383-505). On entry it tests its closure variable \<^verbatim>\<open>album\<close>
  (line 384); it then awaits the storage service and the image decoder for every file
  and collects the assets it builds from their answers in \<^verbatim>\<open>uploadedAssets\<close>; at the
  end it calls \<^verbatim>\<open>setAlbum(prev => prev ? {...prev, ...} : null)\<close> (lines 490-494), whose
  updater does not test \<^verbatim>\<open>prev.config.isLocked\<close>. Here \<open>closure\<close> is the album the
  callback captured, \<open>uploadedAssets\<close> is the list collected, and \<open>s\<close> is the state of
  the store at the moment the updater runs, which other operations may have changed
  while the uploads were in flight.
\<close>

definition uploadMedia :: "int \<Rightarrow> Asset list \<Rightarrow> Album option \<Rightarrow> Store \<Rightarrow> Store" where
  "uploadMedia now uploadedAssets closure s =
     (case closure of None \<Rightarrow> s | Some a \<Rightarrow>
        if locked a then s
        else setAlbum (\<lambda>prev. case prev of
                         Some p \<Rightarrow> Fresh (Some (p\<lparr>unplacedMedia := unplacedMedia p @ uploadedAssets,
                                                   updatedAt := now\<rparr>))
                       | None \<Rightarrow> Fresh None) s)"

definition addMediaByUrl :: "(nat \<Rightarrow> string) \<Rightarrow> int \<Rightarrow> string \<Rightarrow> AssetType \<Rightarrow> Store \<Rightarrow> Store" where
  "addMediaByUrl gen now u t s =
     (case album s of None \<Rightarrow> s | Some a \<Rightarrow>
        if locked a then s
        else
          let newAsset = mkAsset (gen 0) t u 0 0 400 300 0 1
          in setAlbum (\<lambda>prev. case prev of
                         Some p \<Rightarrow> Fresh (Some (p\<lparr>unplacedMedia := unplacedMedia p @ [newAsset],
                                                   updatedAt := now\<rparr>))
                       | None \<Rightarrow> Fresh None) s)"

definition moveFromLibrary :: "int \<Rightarrow> string \<Rightarrow> string \<Rightarrow> Store \<Rightarrow> Store" where
  "moveFromLibrary now assetId pageId s =
     (case album s of None \<Rightarrow> s | Some a \<Rightarrow>
        if locked a then s
        else
          (case find (\<lambda>x. asset_id x = assetId) (unplacedMedia a) of None \<Rightarrow> s
           | Some asset \<Rightarrow>
               setAlbum (\<lambda>_. Fresh (Some
                 (a\<lparr>unplacedMedia := filter (\<lambda>x. asset_id x \<noteq> assetId) (unplacedMedia a),
                    pages := map (onPage pageId
                               (\<lambda>p. p\<lparr>assets := assets p @ [asset\<lparr>pos_x := 50, pos_y := 50\<rparr>]\<rparr>))
                             (pages a),
                    updatedAt := now\<rparr>))) s))"

definition applyLayout :: "int \<Rightarrow> string \<Rightarrow> string \<Rightarrow> Store \<Rightarrow> Store" where
  "applyLayout now pageId template s =
     (case album s of None \<Rightarrow> s | Some a \<Rightarrow>
        if locked a then s
        else setAlbum (\<lambda>_. Fresh (Some
               (a\<lparr>pages := map (onPage pageId (\<lambda>p. p\<lparr>layoutTemplate := template\<rparr>)) (pages a),
                  updatedAt := now\<rparr>))) s)"

text \<open>
  In \<^verbatim>\<open>duplicatePage\<close> the object literal evaluates \<^verbatim>\<open>id: generateId()\<close> first and then
  the ids of the copied assets, in list order.
\<close>

definition duplicatePage :: "(nat \<Rightarrow> string) \<Rightarrow> int \<Rightarrow> string \<Rightarrow> Store \<Rightarrow> Store" where
  "duplicatePage gen now pageId s =
     (case album s of None \<Rightarrow> s | Some a \<Rightarrow>
        if locked a then s
        else
          (case find_page pageId (pages a) of None \<Rightarrow> s | Some pageToDuplicate \<Rightarrow>
             let newPage = pageToDuplicate\<lparr>page_id := gen 0,
                             pageNumber := int (length (pages a)) + 1,
                             assets := map (\<lambda>(k, asset). asset\<lparr>asset_id := gen (Suc k)\<rparr>)
                                         (enumerate 0 (assets pageToDuplicate))\<rparr>;
                 pageIndex = findIndex (\<lambda>p. entry_id p = Some pageId) (pages a);
                 newPages = splice_insert (pages a) (pageIndex + 1) [Full newPage]
             in (setAlbum (\<lambda>_. Fresh (Some (a\<lparr>pages := renumber newPages, updatedAt := now\<rparr>))) s)
                  \<lparr>currentPageIndex := pageIndex + 1\<rparr>))"

definition movePage :: "int \<Rightarrow> string \<Rightarrow> Direction \<Rightarrow> Store \<Rightarrow> Store" where
  "movePage now pageId direction s =
     (case album s of None \<Rightarrow> s | Some a \<Rightarrow>
        if locked a then s
        else
          let currentIndex = findIndex (\<lambda>p. entry_id p = Some pageId) (pages a)
          in if currentIndex = -1 then s
             else if currentIndex = 0 \<or> currentIndex = int (length (pages a)) - 1 then s
             else
               let newIndex = (if direction = DirLeft then currentIndex - 1 else currentIndex + 1)
               in if newIndex \<le> 0 \<or> newIndex \<ge> int (length (pages a)) - 1 then s
                  else
                    let (movedPage, rest) = splice_remove1 (pages a) currentIndex;
                        newPages = splice_insert (map Some rest) newIndex [movedPage]
                    in (setAlbum (\<lambda>_. Fresh (Some (a\<lparr>pages := renumber_js newPages,
                                                        updatedAt := now\<rparr>))) s)
                         \<lparr>currentPageIndex := newIndex\<rparr>)"

definition reorderPages :: "int \<Rightarrow> int \<Rightarrow> int \<Rightarrow> Store \<Rightarrow> Store" where
  "reorderPages now fromIndex toIndex s =
     (case album s of None \<Rightarrow> s | Some a \<Rightarrow>
        if locked a then s
        else if fromIndex = 0 \<or> fromIndex = int (length (pages a)) - 1 then s
        else
          let safeToIndex1 = (if toIndex \<le> 0 then 1 else toIndex);
              safeToIndex = (if safeToIndex1 \<ge> int (length (pages a)) - 1
                             then int (length (pages a)) - 2 else safeToIndex1);
              (movedPage, rest) = splice_remove1 (pages a) fromIndex;
              newPages = splice_insert (map Some rest) safeToIndex [movedPage]
          in setAlbum (\<lambda>_. Fresh (Some (a\<lparr>pages := renumber_js newPages, updatedAt := now\<rparr>))) s)"

definition updateConfig :: "int \<Rightarrow> (AlbumConfig \<Rightarrow> AlbumConfig) \<Rightarrow> Store \<Rightarrow> Store" where
  "updateConfig now updates s =
     (case album s of None \<Rightarrow> s | Some a \<Rightarrow>
        if locked a then s
        else setAlbum (\<lambda>_. Fresh (Some (a\<lparr>config := updates (config a), updatedAt := now\<rparr>))) s)"

definition updatePageAssets :: "int \<Rightarrow> string \<Rightarrow> Asset list \<Rightarrow> Store \<Rightarrow> Store" where
  "updatePageAssets now pageId newAssets s =
     setAlbum (\<lambda>prev. case prev of None \<Rightarrow> SameRef | Some p \<Rightarrow>
                 if locked p then SameRef
                 else Fresh (Some (p\<lparr>pages := map (onPage pageId (\<lambda>pg. pg\<lparr>assets := newAssets\<rparr>))
                                              (pages p),
                                     updatedAt := now\<rparr>))) s"

text \<open>
  The \<^verbatim>\<open>map\<close> callback of \<^verbatim>\<open>moveAssetToPage\<close>: the test for the source page comes first,
  so a page that is both source and destination only loses the asset.
\<close>

definition moveAssetToPage ::
  "int \<Rightarrow> string \<Rightarrow> string \<Rightarrow> string \<Rightarrow> real \<Rightarrow> real \<Rightarrow> Store \<Rightarrow> Store" where
  "moveAssetToPage now assetId fromPageId toPageId newX newY s =
     setAlbum (\<lambda>prev. case prev of None \<Rightarrow> SameRef | Some p \<Rightarrow>
                 if locked p then SameRef
                 else
                   (case (case find_page fromPageId (pages p) of None \<Rightarrow> None
                          | Some fromPage \<Rightarrow> find (\<lambda>x. asset_id x = assetId) (assets fromPage)) of
                      None \<Rightarrow> SameRef
                    | Some asset \<Rightarrow>
                        Fresh (Some (p\<lparr>pages := map (\<lambda>e. case e of
                                 OnlyNumber n \<Rightarrow> e
                               | Full pg \<Rightarrow>
                                   if page_id pg = fromPageId
                                   then Full (pg\<lparr>assets := filter (\<lambda>x. asset_id x \<noteq> assetId) (assets pg)\<rparr>)
                                   else if page_id pg = toPageId
                                   then Full (pg\<lparr>assets := assets pg @ [asset\<lparr>pos_x := newX, pos_y := newY\<rparr>]\<rparr>)
                                   else e) (pages p),
                               updatedAt := now\<rparr>)))) s"

text \<open>
  \<^verbatim>\<open>syncStyles\<close>. With a source asset, \<^verbatim>\<open>targetStyles\<close> has all ten keys (a key whose
  value is \<^verbatim>\<open>undefined\<close> still overwrites), and it is spread into every asset of the
  source's type; without one, no asset matches. The updater maps over every element of
  \<^verbatim>\<open>prev.pages\<close> and calls \<^verbatim>\<open>p.assets.map\<close>, which throws a TypeError on an element that
  has no \<^verbatim>\<open>assets\<close>.
\<close>

definition targetStyles :: "Asset \<Rightarrow> Asset \<Rightarrow> Asset" where
  "targetStyles sourceAsset x =
     x\<lparr>borderRadius := borderRadius sourceAsset,
       borderColor := borderColor sourceAsset,
       borderWidth := borderWidth sourceAsset,
       filter_name := filter_name sourceAsset,
       filterIntensity := filterIntensity sourceAsset,
       fontFamily := fontFamily sourceAsset,
       fontSize := fontSize sourceAsset,
       fontWeight := fontWeight sourceAsset,
       color := color sourceAsset,
       opacity := opacity sourceAsset\<rparr>"

definition syncAsset :: "Asset option \<Rightarrow> Asset \<Rightarrow> Asset" where
  "syncAsset sourceAsset x =
     (case sourceAsset of None \<Rightarrow> x
      | Some src \<Rightarrow> if asset_type x = asset_type src then targetStyles src x else x)"

fun syncPages :: "Asset option \<Rightarrow> PageEntry list \<Rightarrow> error + PageEntry list" where
  "syncPages sourceAsset [] = Inr []"
| "syncPages sourceAsset (OnlyNumber n # es) = Inl TypeError"
| "syncPages sourceAsset (Full p # es) =
     (case syncPages sourceAsset es of Inl err \<Rightarrow> Inl err
      | Inr es' \<Rightarrow> Inr (Full (p\<lparr>assets := map (syncAsset sourceAsset) (assets p)\<rparr>) # es'))"

definition syncStyles :: "int \<Rightarrow> Asset option \<Rightarrow> Store \<Rightarrow> error + Store" where
  "syncStyles now sourceAsset s =
     (case album s of None \<Rightarrow> Inr s | Some a \<Rightarrow>
        if locked a then Inr s
        else
          (case syncPages sourceAsset (pages a) of Inl err \<Rightarrow> Inl err
           | Inr ps \<Rightarrow> Inr (setAlbum (\<lambda>prev. case prev of None \<Rightarrow> SameRef
                              | Some p \<Rightarrow> Fresh (Some (p\<lparr>pages := ps, updatedAt := now\<rparr>))) s)))"

text \<open>
  \<^verbatim>\<open>toggleLock\<close>: the optimistic update of the state (the write to the backend that
  follows does not touch the store).
\<close>

definition toggleLock :: "int \<Rightarrow> Store \<Rightarrow> Store" where
  "toggleLock now s =
     (case album s of None \<Rightarrow> s | Some a \<Rightarrow>
        let newLockedState = (\<not> locked a)
        in setAlbum (\<lambda>prev. case prev of
                       Some p \<Rightarrow> Fresh (Some (p\<lparr>config := (config p)\<lparr>isLocked := Some newLockedState\<rparr>,
                                                 updatedAt := now\<rparr>))
                     | None \<Rightarrow> Fresh None) s)"

text \<open>
  \<^verbatim>\<open>getSpread(pageIndex)\<close>. \<^verbatim>\<open>album.pages[i]\<close> is \<^verbatim>\<open>undefined\<close> outside the array, and
  \<^verbatim>\<open>pageIndex % 2 === 1\<close> holds for the odd indices inside it.
\<close>

definition at_index :: "'a list \<Rightarrow> int \<Rightarrow> 'a option" where
  "at_index xs i = (if 0 \<le> i \<and> i < int (length xs) then Some (xs ! nat i) else None)"

definition getSpread :: "Store \<Rightarrow> int \<Rightarrow> PageEntry list" where
  "getSpread s pageIndex =
     (case album s of None \<Rightarrow> [] | Some a \<Rightarrow>
        (case at_index (pages a) pageIndex of None \<Rightarrow> [] | Some page \<Rightarrow>
           if \<not> useSpreadView (config a) then [page]
           else if entry_template page = Some ''cover-front'' then [page]
           else if entry_template page = Some ''cover-back'' then [page]
           else
             let isLeftIdx = (pageIndex mod 2 = 1)
             in if isLeftIdx
                then (case at_index (pages a) (pageIndex + 1) of
                        Some nextPage \<Rightarrow>
                          if entry_template nextPage \<noteq> Some ''cover-back'' then [page, nextPage]
                          else [page]
                      | None \<Rightarrow> [page])
                else (case at_index (pages a) (pageIndex - 1) of
                        Some prevPage \<Rightarrow>
                          if entry_template prevPage \<noteq> Some ''cover-front'' then [prevPage, page]
                          else [page]
                      | None \<Rightarrow> [page])))"


subsection \<open>The mutating operations as commands\<close>

text \<open>
  One constructor for each mutating operation of the store; \<open>perform\<close> calls the
  operation from the current render (for \<^verbatim>\<open>uploadMedia\<close>: an upload that begins and
  ends with no other operation in between). Only \<^verbatim>\<open>syncStyles\<close> can throw.
\<close>

datatype Mutation =
    AddPage "nat \<Rightarrow> string" "string option"
  | RemovePage string
  | UpdatePage string "Page \<Rightarrow> Page"
  | AddAsset "nat \<Rightarrow> string" string Asset
  | UpdateAsset string string "Asset \<Rightarrow> Asset"
  | RemoveAsset string string
  | DuplicateAsset "nat \<Rightarrow> string" string string
  | UpdateAssetZIndex string string ZDirection
  | UploadMedia "Asset list"
  | AddMediaByUrl "nat \<Rightarrow> string" string AssetType
  | MoveFromLibrary string string
  | ApplyLayout string string
  | DuplicatePage "nat \<Rightarrow> string" string
  | MovePage string Direction
  | ReorderPages int int
  | UpdateConfig "AlbumConfig \<Rightarrow> AlbumConfig"
  | UpdatePageAssets string "Asset list"
  | MoveAssetToPage string string string real real
  | SyncStyles "Asset option"

fun perform :: "int \<Rightarrow> Mutation \<Rightarrow> Store \<Rightarrow> error + Store" where
  "perform now (AddPage gen template) s = Inr (addPage gen now template s)"
| "perform now (RemovePage pageId) s = Inr (removePage now pageId s)"
| "perform now (UpdatePage pageId updates) s = Inr (updatePage now pageId updates s)"
| "perform now (AddAsset gen pageId asset) s = Inr (addAsset gen now pageId asset s)"
| "perform now (UpdateAsset pageId assetId updates) s = Inr (updateAsset now pageId assetId updates s)"
| "perform now (RemoveAsset pageId assetId) s = Inr (removeAsset now pageId assetId s)"
| "perform now (DuplicateAsset gen pageId assetId) s = Inr (duplicateAsset gen now pageId assetId s)"
| "perform now (UpdateAssetZIndex pageId assetId direction) s =
     Inr (updateAssetZIndex now pageId assetId direction s)"
| "perform now (UploadMedia uploadedAssets) s = Inr (uploadMedia now uploadedAssets (album s) s)"
| "perform now (AddMediaByUrl gen u t) s = Inr (addMediaByUrl gen now u t s)"
| "perform now (MoveFromLibrary assetId pageId) s = Inr (moveFromLibrary now assetId pageId s)"
| "perform now (ApplyLayout pageId template) s = Inr (applyLayout now pageId template s)"
| "perform now (DuplicatePage gen pageId) s = Inr (duplicatePage gen now pageId s)"
| "perform now (MovePage pageId direction) s = Inr (movePage now pageId direction s)"
| "perform now (ReorderPages fromIndex toIndex) s = Inr (reorderPages now fromIndex toIndex s)"
| "perform now (UpdateConfig updates) s = Inr (updateConfig now updates s)"
| "perform now (UpdatePageAssets pageId newAssets) s = Inr (updatePageAssets now pageId newAssets s)"
| "perform now (MoveAssetToPage assetId fromPageId toPageId newX newY) s =
     Inr (moveAssetToPage now assetId fromPageId toPageId newX newY s)"
| "perform now (SyncStyles sourceAsset) s = syncStyles now sourceAsset s"

text \<open>
  The page-structural operations, and a run of them: each step carries the clock value
  at which it is issued.
\<close>

datatype PageOp =
    OpAddPage "nat \<Rightarrow> string" "string option"
  | OpRemovePage string
  | OpDuplicatePage "nat \<Rightarrow> string" string
  | OpMovePage string Direction
  | OpReorderPages int int

fun pageOp :: "int \<times> PageOp \<Rightarrow> Store \<Rightarrow> Store" where
  "pageOp (now, OpAddPage gen template) s = addPage gen now template s"
| "pageOp (now, OpRemovePage pageId) s = removePage now pageId s"
| "pageOp (now, OpDuplicatePage gen pageId) s = duplicatePage gen now pageId s"
| "pageOp (now, OpMovePage pageId direction) s = movePage now pageId direction s"
| "pageOp (now, OpReorderPages fromIndex toIndex) s = reorderPages now fromIndex toIndex s"

definition runPageOps :: "(int \<times> PageOp) list \<Rightarrow> Store \<Rightarrow> Store" where
  "runPageOps ops s = fold pageOp ops s"

text \<open>The page numbers of a page list are \<open>1, 2, ..., length\<close> in list order.\<close>

definition contiguous :: "PageEntry list \<Rightarrow> bool" where
  "contiguous ps = (map entry_number ps = map int [1..<Suc (length ps)])"

section \<open>Snap engine (src/components/editor/EditorCanvas.tsx, lines 72-149)\<close>













section \<open>Layout template engine (src/lib/layoutUtils.ts)\<close>

text \<open>
  \<^verbatim>\<open>LayoutConfig\<close> and \<^verbatim>\<open>AlbumLayout\<close> are declared in a module that is not part of the
  sources at hand; the fields are the ones \<^verbatim>\<open>layoutUtils.ts\<close> reads, with the optionality
  its \<^verbatim>\<open>??\<close> and \<^verbatim>\<open>||\<close> defaults imply.
\<close>

record LayoutConfig =
  slot_x :: "real option"
  slot_left :: "real option"
  slot_y :: "real option"
  slot_top :: "real option"
  slot_width :: real
  slot_height :: real
  slot_rotation :: "real option"
  z_index :: int

record AlbumLayout =
  layout_name :: string
  is_spread :: bool
  layout_config :: "LayoutConfig list"

record LayoutUpdate =
  upd_pageId :: string
  upd_assets :: "Asset list"
  upd_layoutTemplate :: string

text \<open>\<open>newId\<close> is the value \<^verbatim>\<open>generateId()\<close> returns inside \<^verbatim>\<open>createPlaceholder\<close>.\<close>

definition createPlaceholder :: "string \<Rightarrow> int \<Rightarrow> Asset" where
  "createPlaceholder newId z =
     (mkAsset newId Image [] 0 0 100 100 0 z)
       \<lparr>isPlaceholder := Some True, fitMode := Some Cover, opacity := Some 100,
        flipX := Some False, flipY := Some False, lockAspectRatio := Some False,
        scale := Some 1, borderWidth := Some 0\<rparr>"

text \<open>\<^verbatim>\<open>a ?? b ?? 0\<close> on two optional numbers.\<close>

definition coalesce0 :: "real option \<Rightarrow> real option \<Rightarrow> real" where
  "coalesce0 a b = (case a of Some v \<Rightarrow> v | None \<Rightarrow> (case b of Some v \<Rightarrow> v | None \<Rightarrow> 0))"

definition updateAssetPosition :: "Asset \<Rightarrow> LayoutConfig \<Rightarrow> Asset" where
  "updateAssetPosition asset slot =
     asset\<lparr>pos_x := coalesce0 (slot_x slot) (slot_left slot),
           pos_y := coalesce0 (slot_y slot) (slot_top slot),
           width := slot_width slot,
           height := slot_height slot,
           rotation := (case slot_rotation slot of Some r \<Rightarrow> r | None \<Rightarrow> 0),
           zIndex := z_index slot,
           fitMode := Some Cover,
           crop := None,
           lockAspectRatio := Some False,
           scale := Some 1\<rparr>"

definition isMedia :: "Asset \<Rightarrow> bool" where
  "isMedia a = (asset_type a = Image \<or> asset_type a = Video)"

text \<open>
  The slot loop of the spread branch. The state is \<^verbatim>\<open>mediaIndex\<close> and the number of
  \<^verbatim>\<open>generateId()\<close> calls made so far; the result is the list of assets pushed.
\<close>

fun fillSlots ::
  "(nat \<Rightarrow> string) \<Rightarrow> Asset list \<Rightarrow> nat \<times> nat \<Rightarrow> LayoutConfig list \<Rightarrow> Asset list \<times> (nat \<times> nat)" where
  "fillSlots gen allMedia (mediaIndex, k) [] = ([], (mediaIndex, k))"
| "fillSlots gen allMedia (mediaIndex, k) (slot # slots) =
     (if mediaIndex < length allMedia
      then (let (rest, c) = fillSlots gen allMedia (Suc mediaIndex, k) slots
            in (updateAssetPosition (allMedia ! mediaIndex) slot # rest, c))
      else (let (rest, c) = fillSlots gen allMedia (mediaIndex, Suc k) slots
            in (updateAssetPosition (createPlaceholder (gen k) (z_index slot)) slot # rest, c)))"

text \<open>
  The slot loop of the single-page branch, \<^verbatim>\<open>slots.forEach((slot, index) => ...)\<close>: the
  placeholder made for the slot \<open>index\<close> is the \<open>(index - length currentMedia)\<close>-th one.
\<close>

definition fillSingle :: "(nat \<Rightarrow> string) \<Rightarrow> Asset list \<Rightarrow> LayoutConfig list \<Rightarrow> Asset list" where
  "fillSingle gen currentMedia slots =
     map (\<lambda>(index, slot).
            updateAssetPosition
              (if index < length currentMedia then currentMedia ! index
               else createPlaceholder (gen (index - length currentMedia)) (z_index slot))
              slot)
         (enumerate 0 slots)"

definition slotX :: "LayoutConfig \<Rightarrow> real" where
  "slotX slot = coalesce0 (slot_x slot) (slot_left slot)"

definition shiftSlot :: "LayoutConfig \<Rightarrow> LayoutConfig" where
  "shiftSlot slot =
     slot\<lparr>slot_x := map_option (\<lambda>v. v - 100) (slot_x slot),
          slot_left := map_option (\<lambda>v. v - 100) (slot_left slot)\<rparr>"

text \<open>
  \<^verbatim>\<open>if (targetPageId)\<close> is false for an absent argument and for the empty string.
\<close>

definition targetPageOf :: "Page \<Rightarrow> Page option \<Rightarrow> string option \<Rightarrow> Page" where
  "targetPageOf leftPage rightPage targetPageId =
     (case targetPageId of None \<Rightarrow> leftPage
      | Some t \<Rightarrow>
          if t = [] then leftPage
          else if page_id leftPage = t then leftPage
          else (case rightPage of Some rp \<Rightarrow> if page_id rp = t then rp else leftPage
                | None \<Rightarrow> leftPage))"

definition calculateLayoutApplication ::
  "(nat \<Rightarrow> string) \<Rightarrow> AlbumLayout \<Rightarrow> Page option \<Rightarrow> Page option \<Rightarrow> string option
     \<Rightarrow> LayoutUpdate list" where
  "calculateLayoutApplication gen layout leftPage_arg rightPage targetPageId =
     (case leftPage_arg of None \<Rightarrow> []
      | Some leftPage \<Rightarrow>
          if is_spread layout then
            let leftSlots = filter (\<lambda>slot. slotX slot < 100) (layout_config layout);
                rightSlots = map shiftSlot
                               (filter (\<lambda>slot. \<not> slotX slot < 100) (layout_config layout));
                leftMedia = filter isMedia (assets leftPage);
                rightMedia = (case rightPage of Some rp \<Rightarrow> filter isMedia (assets rp)
                              | None \<Rightarrow> []);
                allMedia = leftMedia @ rightMedia;
                leftOther = filter (\<lambda>a. \<not> isMedia a) (assets leftPage);
                rightOther = (case rightPage of
                                Some rp \<Rightarrow> filter (\<lambda>a. \<not> isMedia a) (assets rp)
                              | None \<Rightarrow> []);
                (leftFilled, c) = fillSlots gen allMedia (0, 0) leftSlots;
                leftUpdate = \<lparr>upd_pageId = page_id leftPage,
                              upd_assets = leftOther @ leftFilled,
                              upd_layoutTemplate = layout_name layout\<rparr>
            in (case rightPage of None \<Rightarrow> [leftUpdate]
                | Some rp \<Rightarrow>
                    let (rightFilled, c') = fillSlots gen allMedia c rightSlots
                    in [leftUpdate,
                        \<lparr>upd_pageId = page_id rp, upd_assets = rightOther @ rightFilled,
                         upd_layoutTemplate = layout_name layout\<rparr>])
          else
            let targetPage = targetPageOf leftPage rightPage targetPageId;
                currentMedia = filter isMedia (assets targetPage);
                otherAssets = filter (\<lambda>a. \<not> isMedia a) (assets targetPage);
                newAssets = otherAssets @ fillSingle gen currentMedia (layout_config layout)
            in [\<lparr>upd_pageId = page_id targetPage, upd_assets = newAssets,
                 upd_layoutTemplate = layout_name layout\<rparr>])"

section \<open>Page normalizer (src/lib/normalization.ts)\<close>

text \<open>
  \<^verbatim>\<open>normalizePageData(p: any)\<close> works on untyped values, so the model has a type of
  JavaScript values as they come out of the data store: the JSON values, \<^verbatim>\<open>undefined\<close>
  for an absent property, and \<^verbatim>\<open>NaN\<close>, which \<^verbatim>\<open>Number(...)\<close> can produce. An object is
  an association list; a property read takes the first binding of the key.
\<close>

datatype js =
    JUndefined
  | JNull
  | JBool bool
  | JNum real
  | JNaN
  | JStr string
  | JArr "js list"
  | JObj "(string \<times> js) list"

text \<open>
  The built-ins the normalizer calls and that are not modelled in detail:
  \<^verbatim>\<open>JSON.parse\<close> on a string (\<open>None\<close> when it throws a SyntaxError), the conversion of a
  string to a number, the conversion of a value to a string, and \<^verbatim>\<open>generateId()\<close>
  (\<open>gen_id i\<close> is the id made for the box at position \<open>i\<close>).
\<close>

record JsEnv =
  json_parse :: "string \<Rightarrow> js option"
  str_to_num :: "string \<Rightarrow> js"
  to_string :: "js \<Rightarrow> string"
  gen_id :: "nat \<Rightarrow> string"

definition truthy :: "js \<Rightarrow> bool" where
  "truthy v =
     (case v of JUndefined \<Rightarrow> False | JNull \<Rightarrow> False | JBool b \<Rightarrow> b | JNum r \<Rightarrow> r \<noteq> 0
      | JNaN \<Rightarrow> False | JStr s \<Rightarrow> s \<noteq> [] | JArr _ \<Rightarrow> True | JObj _ \<Rightarrow> True)"

definition nullish :: "js \<Rightarrow> bool" where
  "nullish v = (v = JUndefined \<or> v = JNull)"

text \<open>\<^verbatim>\<open>a || b\<close> and \<^verbatim>\<open>a ?? b\<close>.\<close>

definition js_or :: "js \<Rightarrow> js \<Rightarrow> js" where
  "js_or a b = (if truthy a then a else b)"

definition js_nn :: "js \<Rightarrow> js \<Rightarrow> js" where
  "js_nn a b = (if nullish a then b else a)"

text \<open>
  \<^verbatim>\<open>v.k\<close> for a value \<open>v\<close> that is neither \<^verbatim>\<open>undefined\<close> nor \<^verbatim>\<open>null\<close>, and a key \<open>k\<close> among
  those the normalizer reads: an own property of an object, the \<^verbatim>\<open>length\<close> of an array
  or a string, and \<^verbatim>\<open>undefined\<close> otherwise (none of the keys is a prototype property).
  \<open>opt v k\<close> is \<^verbatim>\<open>v?.k\<close>. A plain read on \<^verbatim>\<open>undefined\<close> or \<^verbatim>\<open>null\<close> throws a TypeError;
  the callbacks below test for it where the source reads a property of an array element.
\<close>

definition field :: "js \<Rightarrow> string \<Rightarrow> js" where
  "field v k =
     (case v of
        JObj kvs \<Rightarrow> (case map_of kvs k of Some x \<Rightarrow> x | None \<Rightarrow> JUndefined)
      | JArr xs \<Rightarrow> if k = ''length'' then JNum (real (length xs)) else JUndefined
      | JStr str \<Rightarrow> if k = ''length'' then JNum (real (length str)) else JUndefined
      | _ \<Rightarrow> JUndefined)"

definition opt :: "js \<Rightarrow> string \<Rightarrow> js" where
  "opt v k = (if nullish v then JUndefined else field v k)"

text \<open>
  The conversion of an object to a primitive asks the object for its \<^verbatim>\<open>valueOf\<close> and
  \<^verbatim>\<open>toString\<close> methods. An object that comes from JSON inherits both; its inherited
  \<^verbatim>\<open>valueOf\<close> returns the object itself, so the conversion ends in \<^verbatim>\<open>toString\<close>, and it
  throws a TypeError exactly when the object has an own property named \<^verbatim>\<open>toString\<close>
  (whose value, coming from JSON, is not callable). An array is converted by joining the
  string forms of its elements (\<^verbatim>\<open>undefined\<close> and \<^verbatim>\<open>null\<close> give the empty string), which
  throws when one of them does. \<open>stringifies v\<close> says that the conversion of \<open>v\<close> returns.
\<close>

fun stringifies :: "js \<Rightarrow> bool" where
  "stringifies (JObj kvs) = (''toString'' \<notin> fst ` set kvs)"
| "stringifies (JArr xs) = (\<forall>x \<in> set xs. stringifies x)"
| "stringifies v = True"

text \<open>The string conversion of a template literal, \<^verbatim>\<open>`${v}`\<close>.\<close>

definition to_stringE :: "JsEnv \<Rightarrow> js \<Rightarrow> error + string" where
  "to_stringE env v = (if stringifies v then Inr (to_string env v) else Inl TypeError)"

text \<open>\<^verbatim>\<open>Number(v)\<close>; an array or object is converted through its string form.\<close>

definition Number :: "JsEnv \<Rightarrow> js \<Rightarrow> error + js" where
  "Number env v =
     (case v of
        JUndefined \<Rightarrow> Inr JNaN
      | JNull \<Rightarrow> Inr (JNum 0)
      | JBool b \<Rightarrow> Inr (JNum (if b then 1 else 0))
      | JNum r \<Rightarrow> Inr (JNum r)
      | JNaN \<Rightarrow> Inr JNaN
      | JStr str \<Rightarrow> Inr (str_to_num env str)
      | _ \<Rightarrow> if stringifies v then Inr (str_to_num env (to_string env v)) else Inl TypeError)"

text \<open>\<^verbatim>\<open>v > 0\<close>: the left operand is converted as by \<^verbatim>\<open>Number\<close>.\<close>

definition gt0 :: "JsEnv \<Rightarrow> js \<Rightarrow> error + bool" where
  "gt0 env v =
     (case Number env v of Inl e \<Rightarrow> Inl e | Inr (JNum r) \<Rightarrow> Inr (r > 0) | Inr _ \<Rightarrow> Inr False)"

text \<open>
  \<^verbatim>\<open>[...v]\<close>: the elements of an array, the characters of a string; any other value is
  not iterable and the spread throws a TypeError.
\<close>

definition spreadArr :: "js \<Rightarrow> error + js list" where
  "spreadArr v =
     (case v of JArr xs \<Rightarrow> Inr xs | JStr str \<Rightarrow> Inr (map (\<lambda>c. JStr [c]) str)
      | _ \<Rightarrow> Inl TypeError)"

text \<open>
  The own enumerable properties that \<^verbatim>\<open>{ ...v }\<close> copies: the bindings of an object, the
  indexed elements of an array or string, nothing for any other value.
\<close>

definition ownEntries :: "JsEnv \<Rightarrow> js \<Rightarrow> (string \<times> js) list" where
  "ownEntries env v =
     (case v of
        JObj kvs \<Rightarrow> kvs
      | JArr xs \<Rightarrow> map (\<lambda>(i, x). (to_string env (JNum (real i)), x)) (enumerate 0 xs)
      | JStr str \<Rightarrow> map (\<lambda>(i, c). (to_string env (JNum (real i)), JStr [c])) (enumerate 0 str)
      | _ \<Rightarrow> [])"

text \<open>\<^verbatim>\<open>xs.map(f)\<close> with a callback that may throw.\<close>

fun mapE :: "('a \<Rightarrow> error + 'b) \<Rightarrow> 'a list \<Rightarrow> error + 'b list" where
  "mapE f [] = Inr []"
| "mapE f (x # xs) =
     (case f x of Inl e \<Rightarrow> Inl e
      | Inr y \<Rightarrow> (case mapE f xs of Inl e \<Rightarrow> Inl e | Inr ys \<Rightarrow> Inr (y # ys)))"

text \<open>
  An object literal whose property values are computed in turn, each of which may throw.
\<close>

definition objE :: "(string \<times> (error + js)) list \<Rightarrow> error + js" where
  "objE kvs =
     (case mapE (\<lambda>(k, v). case v of Inl e \<Rightarrow> Inl e | Inr x \<Rightarrow> Inr (k, x)) kvs of
        Inl e \<Rightarrow> Inl e
      | Inr xs \<Rightarrow> Inr (JObj xs))"

text \<open>
  \<^verbatim>\<open>safeParse(data, fallback)\<close>. A truthy value that is neither an object nor a string
  is a non-zero number or \<^verbatim>\<open>true\<close>; \<^verbatim>\<open>JSON.parse\<close> turns it into its string form and
  parses that, which gives the value back.
\<close>

definition safeParse :: "JsEnv \<Rightarrow> js \<Rightarrow> js \<Rightarrow> js" where
  "safeParse env data fallback =
     (if \<not> truthy data then fallback
      else (case data of
              JArr _ \<Rightarrow> data
            | JObj _ \<Rightarrow> data
            | JStr str \<Rightarrow>
                if str = ''null'' \<or> str = ''undefined'' then fallback
                else (case json_parse env str of Some v \<Rightarrow> v | None \<Rightarrow> fallback)
            | _ \<Rightarrow> data))"

text \<open>\<^verbatim>\<open>v && Array.isArray(v) && v.length > 0\<close>.\<close>

definition nonEmptyArray :: "js \<Rightarrow> bool" where
  "nonEmptyArray v = (case v of JArr xs \<Rightarrow> xs \<noteq> [] | _ \<Rightarrow> False)"

definition isArray :: "js \<Rightarrow> bool" where
  "isArray v = (case v of JArr _ \<Rightarrow> True | _ \<Rightarrow> False)"

text \<open>The callback that turns a row of the \<^verbatim>\<open>assets\<close> column into a layout box (lines 50-63).\<close>

definition assetToBox :: "js \<Rightarrow> error + js" where
  "assetToBox a =
     (if nullish a then Inl TypeError
      else Inr (JObj
        [(''id'', field a ''id''),
         (''role'', JStr ''freeform''),
         (''left'', js_or (field a ''x'') (JNum 0)),
         (''top'', js_or (field a ''y'') (JNum 0)),
         (''width'', js_or (field a ''width'') (JNum 30)),
         (''height'', js_or (field a ''height'') (JNum 30)),
         (''zIndex'', js_or (field a ''z_index'') (JNum 10)),
         (''content'', JObj
            [(''type'', js_or (field a ''asset_type'') (js_or (field a ''type'') (JStr ''image''))),
             (''url'', field a ''url''),
             (''config'', js_or (field a ''config'') (JObj []))])]))"

text \<open>The two \<^verbatim>\<open>map\<close> callbacks of the unified path (lines 70-88 and 92-110).\<close>

definition visualBox :: "JsEnv \<Rightarrow> nat \<Rightarrow> js \<Rightarrow> error + js" where
  "visualBox env i frame =
     (let content = field frame ''content''
      in objE
        [(''id'', Inr (js_or (field frame ''id'') (JStr (gen_id env i)))),
         (''role'', Inr (js_or (field frame ''role'') (JStr ''slot''))),
         (''left'', Number env (js_nn (field frame ''left'') (js_nn (field frame ''x'') (JNum 0)))),
         (''top'', Number env (js_nn (field frame ''top'') (js_nn (field frame ''y'') (JNum 0)))),
         (''width'', Number env (js_nn (field frame ''width'') (JNum 30))),
         (''height'', Number env (js_nn (field frame ''height'') (JNum 30))),
         (''zIndex'', Number env (js_nn (field frame ''zIndex'') (js_nn (field frame ''z'') (JNum 10)))),
         (''content'', objE
            [(''type'', Inr (js_or (opt content ''type'')
                               (js_or (field frame ''type'') (JStr ''image'')))),
             (''url'', Inr (js_or (opt content ''url'') (js_or (field frame ''url'') JNull))),
             (''zoom'', Number env (js_nn (opt content ''zoom'') (js_nn (field frame ''zoom'') (JNum 1)))),
             (''x'', Number env (js_nn (opt content ''x'') (js_nn (field frame ''focalX'') (JNum 50)))),
             (''y'', Number env (js_nn (opt content ''y'') (js_nn (field frame ''focalY'') (JNum 50)))),
             (''rotation'', Number env (js_nn (opt content ''rotation'')
                                          (js_nn (field frame ''rotation'') (JNum 0)))),
             (''text'', Inr (js_or (opt content ''text'')
                               (js_or (opt (opt content ''config'') ''content'')
                                  (js_or content JNull)))),
             (''config'', Inr (js_or (opt content ''config'')
                                 (js_or (field frame ''config'') (JObj []))))])])"

definition textBox :: "JsEnv \<Rightarrow> nat \<Rightarrow> js \<Rightarrow> error + js" where
  "textBox env i frame =
     (let content = field frame ''content''
      in objE
        [(''id'', Inr (js_or (field frame ''id'') (JStr (gen_id env i)))),
         (''role'', Inr (JStr ''text'')),
         (''left'', Number env (js_nn (field frame ''left'') (js_nn (field frame ''x'') (JNum 0)))),
         (''top'', Number env (js_nn (field frame ''top'') (js_nn (field frame ''y'') (JNum 0)))),
         (''width'', Number env (js_nn (field frame ''width'') (JNum 50))),
         (''height'', Number env (js_nn (field frame ''height'') (JNum 10))),
         (''zIndex'', Number env (js_nn (field frame ''zIndex'') (js_nn (field frame ''z'') (JNum 50)))),
         (''content'', objE
            [(''type'', Inr (JStr ''text'')),
             (''url'', Inr JUndefined),
             (''zoom'', Inr (JNum 1)),
             (''x'', Inr (JNum 50)),
             (''y'', Inr (JNum 50)),
             (''rotation'', Number env (js_or (opt content ''rotation'')
                                          (js_or (field frame ''rotation'') (JNum 0)))),
             (''text'', Inr (js_or (opt content ''text'')
                               (js_or (opt (opt content ''config'') ''content'')
                                  (js_or content (JStr ''Double click to edit''))))),
             (''config'', Inr (js_or (opt content ''config'')
                                 (js_or (field frame ''config'') (JObj []))))])])"

text \<open>The callback of the legacy path (lines 133-151); the spread of the config comes last.\<close>

definition legacyAsset :: "JsEnv \<Rightarrow> js \<Rightarrow> error + js" where
  "legacyAsset env a =
     (if nullish a then Inl TypeError
      else
        let cfg = field a ''config'';
            restoredType =
              (if truthy (opt cfg ''originalType'') then opt cfg ''originalType''
               else if field a ''asset_type'' = JStr ''image'' \<and> truthy (opt cfg ''mapConfig'')
               then JStr ''map''
               else if field a ''asset_type'' = JStr ''text''
                       \<and> (truthy (opt cfg ''location'') \<or> truthy (opt cfg ''isLocation''))
               then JStr ''location''
               else field a ''asset_type'')
        in Inr (JObj (ownEntries env (js_or cfg (JObj []))
                      @ [(''id'', field a ''id''),
                         (''type'', restoredType),
                         (''url'', field a ''url''),
                         (''zIndex'', js_or (field a ''z_index'') (JNum 0)),
                         (''slotId'', field a ''slot_id'')])))"

text \<open>
  The unified branch (lines 45-130), for the record \<open>p\<close>, the elements \<open>layoutItems\<close> of
  \<^verbatim>\<open>layoutArray\<close> and the parsed \<^verbatim>\<open>textArray\<close>.
\<close>

definition unifiedPage :: "JsEnv \<Rightarrow> js \<Rightarrow> js list \<Rightarrow> js \<Rightarrow> error + js" where
  "unifiedPage env p layoutItems textArray =
     (case (if layoutItems = [] \<and> truthy (field p ''assets'')
            then (case gt0 env (field (field p ''assets'') ''length'') of
                    Inl e \<Rightarrow> Inl e
                  | Inr positive \<Rightarrow>
                      if positive
                      then (case field p ''assets'' of JArr rows \<Rightarrow> mapE assetToBox rows
                            | _ \<Rightarrow> Inl TypeError)
                      else Inr layoutItems)
            else Inr layoutItems) of
        Inl e \<Rightarrow> Inl e
      | Inr finalLayoutArray \<Rightarrow>
          (case spreadArr textArray of
             Inl e \<Rightarrow> Inl e
           | Inr textItems \<Rightarrow>
               let allItems = finalLayoutArray @ textItems
               in (case mapE (\<lambda>(i, frame). visualBox env i frame)
                         (enumerate 0
                            (filter (\<lambda>item. truthy item \<and> field item ''role'' \<noteq> JStr ''text'')
                               allItems)) of
                     Inl e \<Rightarrow> Inl e
                   | Inr layoutConfig \<Rightarrow>
                       (case mapE (\<lambda>(i, frame). textBox env (length layoutConfig + i) frame)
                               (enumerate 0
                                  (filter (\<lambda>item. truthy item
                                             \<and> (field item ''role'' = JStr ''text''
                                                  \<or> field item ''type'' = JStr ''text''))
                                     allItems)) of
                          Inl e \<Rightarrow> Inl e
                        | Inr textLayers \<Rightarrow>
                            (case objE
                                    [(''backgroundColor'',
                                        Inr (js_or (opt (field p ''page_styles'') ''backgroundColor'')
                                               (js_or (opt (field p ''background_config'') ''color'')
                                                  (js_or (field p ''background_color'')
                                                     (JStr ''#ffffff''))))),
                                     (''backgroundOpacity'',
                                        Number env
                                          (js_nn (opt (field p ''page_styles'') ''backgroundOpacity'')
                                             (js_nn (opt (field p ''background_config'') ''opacity'')
                                                (js_nn (field p ''background_opacity'') (JNum 100))))),
                                     (''backgroundImage'',
                                        Inr (js_or (opt (field p ''page_styles'') ''backgroundImage'')
                                               (js_or (opt (field p ''background_config'') ''image'')
                                                  (js_or (field p ''background_image'') JUndefined)))),
                                     (''backgroundBlendMode'',
                                        Inr (js_or (opt (field p ''page_styles'') ''backgroundBlendMode'')
                                               (js_or (opt (field p ''background_config'') ''blendMode'')
                                                  (JStr ''normal''))))] of
                               Inl e \<Rightarrow> Inl e
                             | Inr pageStyles \<Rightarrow>
                                 objE
                                   [(''id'',
                                       if truthy (field p ''id'') then Inr (field p ''id'')
                                       else (case to_stringE env (field p ''page_number'') of
                                               Inl e \<Rightarrow> Inl e
                                             | Inr str \<Rightarrow> Inr (JStr (''page-'' @ str)))),
                                    (''pageNumber'', Inr (field p ''page_number'')),
                                    (''layoutTemplate'',
                                       Inr (js_or (field p ''layout_template'')
                                              (js_or (field p ''template_id'') (JStr ''freeform'')))),
                                    (''layoutConfig'', Inr (JArr layoutConfig)),
                                    (''textLayers'', Inr (JArr textLayers)),
                                    (''pageStyles'', Inr pageStyles),
                                    (''backgroundColor'', Inr (field pageStyles ''backgroundColor'')),
                                    (''backgroundOpacity'',
                                       Inr (field pageStyles ''backgroundOpacity'')),
                                    (''backgroundImage'', Inr (field pageStyles ''backgroundImage'')),
                                    (''assets'', Inr (JArr []))])))))"

text \<open>The legacy branch (lines 132-164).\<close>

definition legacyPage :: "JsEnv \<Rightarrow> js \<Rightarrow> error + js" where
  "legacyPage env p =
     (case js_or (field p ''assets'') (JArr []) of
        JArr rows \<Rightarrow>
          (case mapE (legacyAsset env) rows of
             Inl e \<Rightarrow> Inl e
           | Inr assets' \<Rightarrow>
               Inr (JObj
                 [(''id'', field p ''id''),
                  (''pageNumber'', field p ''page_number''),
                  (''layoutTemplate'', js_or (field p ''template_id'') (JStr ''freeform'')),
                  (''backgroundColor'', js_or (field p ''background_color'') (JStr ''#ffffff'')),
                  (''backgroundOpacity'', js_nn (field p ''background_opacity'') (JNum 100)),
                  (''backgroundImage'', field p ''background_image''),
                  (''assets'', JArr assets'),
                  (''layoutConfig'', JArr []),
                  (''textLayers'', JArr [])]))
      | _ \<Rightarrow> Inl TypeError)"

text \<open>
  \<^verbatim>\<open>normalizePageData\<close>; the argument is the record \<^verbatim>\<open>p\<close>, an object. Of the two diagnostic
  \<^verbatim>\<open>console.log\<close> calls for page 1 the model keeps what can throw: the template literals
  convert \<^verbatim>\<open>p.assets?.length || 0\<close> and \<^verbatim>\<open>layoutArray.length\<close> to strings (\<^verbatim>\<open>layoutArray\<close> is
  truthy, so the read itself returns). When \<^verbatim>\<open>isUnified\<close> holds, \<^verbatim>\<open>layoutArray\<close> is an array
  and \<^verbatim>\<open>[...layoutArray]\<close> is its list of elements.
\<close>

definition normalizePageData :: "JsEnv \<Rightarrow> (string \<times> js) list \<Rightarrow> error + js" where
  "normalizePageData env raw =
     (let p = JObj raw;
          configData = safeParse env (field p ''layout_config'') JNull;
          jsonData = safeParse env (field p ''layout_json'') JNull;
          contentData = safeParse env (field p ''content'') JNull;
          layoutArray =
            (if nonEmptyArray configData then configData
             else if nonEmptyArray jsonData then jsonData
             else if nonEmptyArray contentData then contentData
             else js_or configData (js_or jsonData (js_or contentData (JArr []))));
          rawAreaText = js_or (field p ''text_layers'') (JArr []);
          textArray = safeParse env rawAreaText (JArr []);
          logged = (if field p ''page_number'' = JNum 1
                    then stringifies (js_or (opt (field p ''assets'') ''length'') (JNum 0))
                         \<and> stringifies (field layoutArray ''length'')
                    else True);
          isUnified = (isArray layoutArray
                       \<and> (nonEmptyArray layoutArray \<or> truthy (field p ''layout_config'')
                            \<or> truthy (field p ''layout_json'')))
      in if \<not> logged then Inl TypeError
         else if isUnified then
           (case layoutArray of
              JArr layoutItems \<Rightarrow> unifiedPage env p layoutItems textArray
            | _ \<Rightarrow> Inl TypeError)
         else legacyPage env p)"

section \<open>Vocabulary for the history claims\<close>

text \<open>
  An edit, as far as the history is concerned: some operation hands a newly built
  aggregate to \<^verbatim>\<open>setAlbum\<close>. \<open>lastn n xs\<close> is \<^verbatim>\<open>xs.slice(-n)\<close>.
\<close>

definition edit :: "Album \<Rightarrow> Store \<Rightarrow> Store" where
  "edit a' s = setAlbum (\<lambda>_. Fresh (Some a')) s"

definition lastn :: "nat \<Rightarrow> 'a list \<Rightarrow> 'a list" where
  "lastn n xs = drop (length xs - n) xs"

section \<open>Vocabulary for the snapping claim\<close>


section \<open>Vocabulary for the page and asset claims\<close>

text \<open>
  \<open>forgetNumber e\<close> is the page entry \<open>e\<close> with its page number blanked: two page lists
  hold the same pages up to numbering and order when the multisets of their entries
  agree after \<open>forgetNumber\<close>. \<open>holds assetId e\<close> says that an asset with that id is on the
  asset list of \<open>e\<close>, and \<open>holders\<close> counts the entries of a page list for which it is.
  \<open>moveEntry\<close> is the \<^verbatim>\<open>map\<close> callback of \<^verbatim>\<open>moveAssetToPage\<close> under a name.
\<close>

definition forgetNumber :: "PageEntry \<Rightarrow> PageEntry" where
  "forgetNumber e = withPageNumber 0 (Some e)"

definition holds :: "string \<Rightarrow> PageEntry \<Rightarrow> bool" where
  "holds assetId e =
     (case e of Full p \<Rightarrow> list_ex (\<lambda>x. asset_id x = assetId) (assets p) | OnlyNumber _ \<Rightarrow> False)"

definition holders :: "string \<Rightarrow> PageEntry list \<Rightarrow> nat" where
  "holders assetId ps = length (filter (holds assetId) ps)"

definition moveEntry :: "string \<Rightarrow> string \<Rightarrow> string \<Rightarrow> Asset \<Rightarrow> PageEntry \<Rightarrow> PageEntry" where
  "moveEntry assetId fromPageId toPageId moved e =
     (case e of
        OnlyNumber n \<Rightarrow> e
      | Full pg \<Rightarrow>
          if page_id pg = fromPageId
          then Full (pg\<lparr>assets := filter (\<lambda>x. asset_id x \<noteq> assetId) (assets pg)\<rparr>)
          else if page_id pg = toPageId
          then Full (pg\<lparr>assets := assets pg @ [moved]\<rparr>)
          else e)"

subsection \<open>Sample data\<close>

text \<open>\<^verbatim>\<open>DEFAULT_CONFIG\<close> of the source (lines 191-205).\<close>

definition DEFAULT_CONFIG :: AlbumConfig where
  "DEFAULT_CONFIG =
     \<lparr>dimensions = \<lparr>dim_width = 1000, dim_height = 700, dim_unit = Px, dim_bleed = 25, dim_gutter = 40\<rparr>,
      useSpreadView = True,
      gridSettings = \<lparr>grid_size = 20, snap = True, visible = False\<rparr>,
      styleSync = None, isLocked = None\<rparr>"

definition sampleAlbum :: "PageEntry list \<Rightarrow> Album" where
  "sampleAlbum ps =
     \<lparr>album_id = ''album-1'', family_id = ''family-1'', title = ''Summer'',
      description = None, album_category = None, coverUrl = None,
      pages = ps, unplacedMedia = [], hashtags = [], config = DEFAULT_CONFIG,
      createdAt = 0, updatedAt = 0, isPublished = False,
      location = None, country = None, geotag = None\<rparr>"

definition sampleStore :: "Album \<Rightarrow> Store" where
  "sampleStore a =
     \<lparr>album = Some a, history = [], redoStack = [], currentPageIndex = 0,
      selectedAssetId = None\<rparr>"

definition lockedAlbum :: Album where
  "lockedAlbum =
     (sampleAlbum [Full (blankPage ''p1'' 1 ''cover-front''), Full (blankPage ''p2'' 2 ''freeform''),
                   Full (blankPage ''p3'' 3 ''cover-back'')])
       \<lparr>config := DEFAULT_CONFIG\<lparr>isLocked := Some True\<rparr>\<rparr>"

definition threePages :: "PageEntry list" where
  "threePages =
     [Full (blankPage ''p1'' 1 ''cover-front''), Full (blankPage ''p2'' 2 ''freeform''),
      Full (blankPage ''p3'' 3 ''cover-back'')]"

definition sampleGen :: "nat \<Rightarrow> string" where
  "sampleGen k = replicate (Suc k) CHR ''n''"





definition slot3 :: "real \<Rightarrow> int \<Rightarrow> LayoutConfig" where
  "slot3 px z =
     \<lparr>slot_x = Some px, slot_left = None, slot_y = Some 5, slot_top = None, slot_width = 30,
      slot_height = 90, slot_rotation = None, z_index = z\<rparr>"

definition threeSlotLayout :: AlbumLayout where
  "threeSlotLayout =
     \<lparr>layout_name = ''three-columns'', is_spread = False,
      layout_config = [slot3 2 1, slot3 35 2, slot3 68 3]\<rparr>"

definition img :: "string \<Rightarrow> int \<Rightarrow> Asset" where
  "img i z = mkAsset i Image (''https://cdn/'' @ i) 10 10 20 20 0 z"

definition caption :: Asset where
  "caption = mkAsset ''t1'' Text [] 5 80 40 10 0 9"

definition fiveImagePage :: Page where
  "fiveImagePage =
     (blankPage ''p2'' 2 ''freeform'')
       \<lparr>assets := [img ''i1'' 1, caption, img ''i2'' 2, img ''i3'' 3, img ''i4'' 4, img ''i5'' 5]\<rparr>"

definition oneImagePage :: Page where
  "oneImagePage = (blankPage ''p3'' 3 ''freeform'')\<lparr>assets := [caption, img ''i1'' 1]\<rparr>"

definition twoPageAlbum :: Album where
  "twoPageAlbum = sampleAlbum
     [Full ((blankPage ''pA'' 1 ''freeform'')\<lparr>assets := [img ''a1'' (-5), img ''a2'' (-3)]\<rparr>),
      Full (blankPage ''pB'' 2 ''freeform'')]"

definition coverAlbum :: Album where
  "coverAlbum = sampleAlbum
     [Full (blankPage ''p1'' 1 ''cover-front''), Full (blankPage ''p2'' 2 ''freeform''),
      Full (blankPage ''p3'' 3 ''cover-front''), Full (blankPage ''p4'' 4 ''freeform''),
      Full (blankPage ''p5'' 5 ''cover-back'')]"

definition specRow :: js where
  "specRow = JObj [(''id'', JStr ''a1''), (''x'', JNum 10), (''y'', JNum 10), (''width'', JNum 20),
                   (''height'', JNum 20), (''z_index'', JNum 5), (''url'', JStr ''u''),
                   (''asset_type'', JStr ''image'')]"

section \<open>Verification\<close>

subsection \<open>C1: a locked album is frozen\<close>

lemma locked_call_returns:
  assumes "album s = Some a" and "isLocked (config a) = Some True"
  shows "perform now m s = Inr s"
  using assms
  by (cases m;
      simp add: locked_def setAlbum_def addPage_def removePage_def updatePage_def addAsset_def
        updateAsset_def removeAsset_def duplicateAsset_def updateAssetZIndex_def uploadMedia_def
        addMediaByUrl_def moveFromLibrary_def applyLayout_def duplicatePage_def movePage_def
        reorderPages_def updateConfig_def updatePageAssets_def moveAssetToPage_def syncStyles_def)

text \<open>
  C1 fails for \<^verbatim>\<open>uploadMedia\<close>. The upload is started on the unlocked three-page album,
  which the callback keeps as its closure; \<^verbatim>\<open>toggleLock\<close> locks the album while the file
  is in flight; the updater that runs when the upload is done appends the new asset to
  the locked aggregate and stamps it. The updaters of \<^verbatim>\<open>updatePageAssets\<close> and
  \<^verbatim>\<open>moveAssetToPage\<close> test \<^verbatim>\<open>prev.config.isLocked\<close>; this one does not.
  (\<open>locked_call_returns\<close> above: each of the nineteen operations, called from the current
  render on a locked album, returns without any change of the store.)
\<close>

theorem uploadMedia_writes_to_locked_album:
  "album (toggleLock 5 (sampleStore (sampleAlbum threePages)))
     = Some ((sampleAlbum threePages)
               \<lparr>config := DEFAULT_CONFIG\<lparr>isLocked := Some True\<rparr>, updatedAt := 5\<rparr>) \<and>
   album (uploadMedia 9 [img ''u1'' 1] (Some (sampleAlbum threePages))
            (toggleLock 5 (sampleStore (sampleAlbum threePages))))
     = Some ((sampleAlbum threePages)
               \<lparr>config := DEFAULT_CONFIG\<lparr>isLocked := Some True\<rparr>,
                unplacedMedia := [img ''u1'' 1], updatedAt := 9\<rparr>)"
  by (simp add: uploadMedia_def toggleLock_def setAlbum_def locked_def sampleStore_def
      sampleAlbum_def DEFAULT_CONFIG_def)

subsection \<open>C2: page numbers stay contiguous\<close>

lemma entry_number_withPageNumber: "entry_number (withPageNumber n e) = n"
  by (simp add: withPageNumber_def entry_number_def split: option.splits PageEntry.splits)

lemma length_renumber_js: "length (renumber_js ps) = length ps"
  by (simp add: renumber_js_def)

lemma contiguous_renumber_js: "contiguous (renumber_js ps)"
proof -
  have "map entry_number (renumber_js ps) = map (\<lambda>ip. int (fst ip) + 1) (enumerate 0 ps)"
    by (simp add: renumber_js_def entry_number_withPageNumber split_def)
  also have "\<dots> = map (\<lambda>i. int i + 1) (map fst (enumerate 0 ps))"
    by (simp only: map_map comp_def)
  also have "\<dots> = map int (map Suc [0..<length ps])"
    by (simp add: comp_def)
  also have "\<dots> = map int [1..<Suc (length ps)]"
    by (simp only: map_Suc_upt One_nat_def)
  finally show ?thesis
    by (simp add: contiguous_def length_renumber_js)
qed

lemma contiguous_renumber: "contiguous (renumber ps)"
  by (simp add: renumber_def contiguous_renumber_js)

lemma pageOp_keeps_contiguous:
  assumes "album s = Some a" and "contiguous (pages a)"
  shows "\<exists>a'. album (pageOp step s) = Some a' \<and> contiguous (pages a')"
proof (cases step)
  case (Pair now op)
  show ?thesis
    using assms unfolding Pair
    by (cases op)
       (auto simp add: addPage_def removePage_def duplicatePage_def movePage_def
          reorderPages_def setAlbum_def Let_def contiguous_renumber contiguous_renumber_js
          split: option.splits prod.splits)
qed

lemma runPageOps_contiguous:
  assumes "album s = Some a" and "contiguous (pages a)"
  shows "\<exists>a'. album (runPageOps ops s) = Some a' \<and> contiguous (pages a')"
  using assms
proof (induction ops arbitrary: s a)
  case Nil
  then show ?case by (simp add: runPageOps_def)
next
  case (Cons step ops)
  from pageOp_keeps_contiguous [OF Cons.prems, of step]
  obtain b where b: "album (pageOp step s) = Some b" "contiguous (pages b)" by blast
  from Cons.IH [OF b] show ?case by (simp add: runPageOps_def)
qed

text \<open>
  C2. If the page numbers of the album are \<open>1..N\<close> in list order, then after any run of
  \<^verbatim>\<open>addPage\<close>, \<^verbatim>\<open>removePage\<close>, \<^verbatim>\<open>duplicatePage\<close>, \<^verbatim>\<open>movePage\<close> and \<^verbatim>\<open>reorderPages\<close>, with any
  arguments, the page numbers of the resulting page list are \<open>1..M\<close> in list order, \<open>M\<close>
  being its length.
\<close>

theorem page_numbers_stay_contiguous:
  assumes "album s = Some a"
    and "map entry_number (pages a) = map int [1..<Suc (length (pages a))]"
  shows "\<exists>a'. album (runPageOps ops s) = Some a' \<and>
              map entry_number (pages a') = map int [1..<Suc (length (pages a'))]"
  using runPageOps_contiguous [of s a ops] assms by (simp add: contiguous_def)

theorem page_numbers_stay_contiguous_witness:
  "album (sampleStore (sampleAlbum threePages)) = Some (sampleAlbum threePages) \<and>
   map entry_number (pages (sampleAlbum threePages))
     = map int [1..<Suc (length (pages (sampleAlbum threePages)))] \<and>
   (\<exists>a'. album (runPageOps [(1, OpAddPage sampleGen None), (2, OpReorderPages 7 1),
                             (3, OpRemovePage ''p2''), (4, OpMovePage ''n'' DirRight)]
                  (sampleStore (sampleAlbum threePages))) = Some a' \<and>
         map entry_number (pages a') = map int [1..<Suc (length (pages a'))])"
proof -
  have h1: "album (sampleStore (sampleAlbum threePages)) = Some (sampleAlbum threePages)"
    by (simp add: sampleStore_def)
  have h2: "map entry_number (pages (sampleAlbum threePages))
              = map int [1..<Suc (length (pages (sampleAlbum threePages)))]"
    by (simp add: sampleAlbum_def threePages_def blankPage_def entry_number_def)
  show ?thesis
    using h1 h2 page_numbers_stay_contiguous [OF h1 h2] by blast
qed

subsection \<open>C9: undo and redo\<close>

lemma lastn_snoc: "lastn 20 (lastn 20 xs @ [y]) = lastn 20 (xs @ [y])"
proof (cases "length xs \<le> 20")
  case True
  then show ?thesis by (simp add: lastn_def)
next
  case False
  then have "Suc (length xs - 20) = length xs - 19" by arith
  with False show ?thesis by (simp add: lastn_def)
qed

lemma edit_state:
  assumes "album s = Some a"
  shows "album (edit b s) = Some b"
    and "history (edit b s) = lastn 20 (history s @ [a])"
    and "redoStack (edit b s) = []"
  using assms by (simp_all add: edit_def setAlbum_def lastn_def)

lemma edits_album:
  assumes "album s = Some a0"
  shows "album (fold edit es s) = Some (last (a0 # es))"
  using assms
proof (induction es arbitrary: s a0 rule: rev_induct)
  case Nil
  then show ?case by simp
next
  case (snoc e es)
  from snoc.IH [OF snoc.prems] show ?case
    using edit_state(1) by simp
qed

lemma edits_history:
  assumes "album s = Some a0" and "es \<noteq> []"
  shows "history (fold edit es s) = lastn 20 (history s @ butlast (a0 # es)) \<and>
         redoStack (fold edit es s) = []"
  using assms
proof (induction es arbitrary: s a0 rule: rev_induct)
  case Nil
  then show ?case by simp
next
  case (snoc e es)
  let ?t = "fold edit es s"
  have ta: "album ?t = Some (last (a0 # es))"
    using edits_album [OF snoc.prems(1)] .
  have r: "redoStack (edit e ?t) = []"
    using edit_state(3) [OF ta] .
  have h0: "history (edit e ?t) = lastn 20 (history ?t @ [last (a0 # es)])"
    using edit_state(2) [OF ta] .
  have h: "history (edit e ?t) = lastn 20 (history s @ a0 # es)"
  proof (cases "es = []")
    case True
    then show ?thesis using h0 by simp
  next
    case False
    from snoc.IH [OF snoc.prems(1) False]
    have th: "history ?t = lastn 20 (history s @ butlast (a0 # es))" by simp
    have "history (edit e ?t) = lastn 20 ((history s @ butlast (a0 # es)) @ [last (a0 # es)])"
      unfolding h0 th by (rule lastn_snoc)
    also have "(history s @ butlast (a0 # es)) @ [last (a0 # es)] = history s @ (a0 # es)"
      by (simp del: butlast.simps last.simps)
    finally show ?thesis .
  qed
  show ?case using h r by (simp add: butlast_append)
qed

lemma undo_pops:
  assumes "history s = pre @ xs" and "k \<le> length xs"
  shows "history ((undo ^^ k) s) = pre @ take (length xs - k) xs \<and>
         (0 < k \<longrightarrow> album ((undo ^^ k) s) = Some (xs ! (length xs - k)))"
  using assms(2)
proof (induction k)
  case 0
  then show ?case using assms(1) by simp
next
  case (Suc k)
  let ?t = "(undo ^^ k) s"
  let ?m = "length xs - k"
  from Suc have ht: "history ?t = pre @ take ?m xs" and m: "0 < ?m" by simp_all
  have ne: "take ?m xs \<noteq> []" using m Suc.prems by auto
  have "last (take ?m xs) = xs ! (?m - 1)"
    using ne m Suc.prems by (simp add: last_conv_nth min_absorb2)
  then have l: "last (pre @ take ?m xs) = xs ! (?m - 1)"
    using ne by simp
  have b: "butlast (pre @ take ?m xs) = pre @ take (?m - 1) xs"
    using ne m Suc.prems by (simp add: butlast_append butlast_take)
  have eq: "length xs - Suc k = ?m - 1" by simp
  show ?case
    using ht l b ne unfolding funpow.simps comp_def eq
    by (simp add: undo_def)
qed


text \<open>
  C9. After a run of \<open>N\<close> edits, \<open>1 \<le> N \<le> 20\<close>, starting from the aggregate \<open>a0\<close>:
  \<^verbatim>\<open>undo\<close> restores the aggregate that held before the last edit; \<^verbatim>\<open>redo\<close> right after
  that \<^verbatim>\<open>undo\<close> restores the aggregate the \<^verbatim>\<open>undo\<close> set aside; a new edit after the
  \<^verbatim>\<open>undo\<close> empties the redo stack, so that \<^verbatim>\<open>redo\<close> does nothing; and \<open>k \<le> N\<close> undos in
  a row restore the aggregate that held \<open>k\<close> edits earlier.
\<close>

theorem undo_redo_linear_history:
  assumes "album s = Some a0" and "es \<noteq> []" and "length es \<le> 20"
  shows "album (undo (fold edit es s)) = Some (last (a0 # butlast es)) \<and>
         album (redo (undo (fold edit es s))) = Some (last es) \<and>
         redoStack (edit b (undo (fold edit es s))) = [] \<and>
         redo (edit b (undo (fold edit es s))) = edit b (undo (fold edit es s)) \<and>
         (\<forall>k \<le> length es. album ((undo ^^ k) (fold edit es s)) = Some ((a0 # es) ! (length es - k)))"
proof -
  let ?s' = "fold edit es s"
  let ?n = "length es"
  let ?xs = "butlast (a0 # es)"
  have alb: "album ?s' = Some (last es)"
    using edits_album [OF assms(1), of es] assms(2) by simp
  have hist: "history ?s' = lastn 20 (history s @ ?xs)" and red: "redoStack ?s' = []"
    using edits_history [OF assms(1,2)] by simp_all
  have len: "length ?xs = ?n" by simp
  have split: "history ?s' = drop (length (history s) + ?n - 20) (history s) @ ?xs"
    unfolding hist lastn_def using assms(3) len by (simp del: butlast.simps)
  have pops: "k \<le> ?n \<Longrightarrow> 0 < k \<Longrightarrow> album ((undo ^^ k) ?s') = Some (?xs ! (?n - k))" for k
    using undo_pops [OF split, of k] len by (simp del: butlast.simps)
  have nth: "k \<le> ?n \<Longrightarrow> 0 < k \<Longrightarrow> ?xs ! (?n - k) = (a0 # es) ! (?n - k)" for k
    by (simp add: nth_butlast del: butlast.simps)
  have all: "\<forall>k \<le> ?n. album ((undo ^^ k) ?s') = Some ((a0 # es) ! (?n - k))"
  proof (intro allI impI)
    fix k assume k: "k \<le> ?n"
    show "album ((undo ^^ k) ?s') = Some ((a0 # es) ! (?n - k))"
    proof (cases "k = 0")
      case True
      then show ?thesis using alb assms(2) by (simp add: last_conv_nth)
    next
      case False
      then show ?thesis using pops [OF k] nth [OF k] by simp
    qed
  qed
  have hne: "history ?s' \<noteq> []"
    using split assms(2) by simp
  have one: "album (undo ?s') = Some (last (a0 # butlast es))"
  proof -
    have "1 \<le> ?n" using assms(2) by (cases es) simp_all
    with all have "album ((undo ^^ 1) ?s') = Some ((a0 # es) ! (?n - 1))" by blast
    moreover have "(a0 # es) ! (?n - 1) = last (a0 # butlast es)"
      using assms(2) by (cases es rule: rev_cases) (simp_all add: nth_append last_conv_nth)
    ultimately show ?thesis by simp
  qed
  have ualb: "album (undo ?s') \<noteq> None" using one by simp
  have ured: "redoStack (undo ?s') = [last es]"
    using hne alb red by (simp add: undo_def)
  have two: "album (redo (undo ?s')) = Some (last es)"
    using ured by (simp add: redo_def)
  obtain c where c: "album (undo ?s') = Some c" using one by blast
  have three: "redoStack (edit b (undo ?s')) = []"
    using edit_state(3) [OF c] .
  have four: "redo (edit b (undo ?s')) = edit b (undo ?s')"
    using three by (simp add: redo_def)
  show ?thesis using one two three four all by blast
qed


theorem undo_redo_linear_history_witness:
  "album (sampleStore (sampleAlbum [])) = Some (sampleAlbum []) \<and>
   [sampleAlbum threePages, lockedAlbum] \<noteq> [] \<and>
   length [sampleAlbum threePages, lockedAlbum] \<le> 20 \<and>
   album (undo (fold edit [sampleAlbum threePages, lockedAlbum] (sampleStore (sampleAlbum []))))
     = Some (sampleAlbum threePages) \<and>
   album (redo (undo (fold edit [sampleAlbum threePages, lockedAlbum]
                        (sampleStore (sampleAlbum []))))) = Some lockedAlbum \<and>
   album ((undo ^^ 2) (fold edit [sampleAlbum threePages, lockedAlbum]
                         (sampleStore (sampleAlbum [])))) = Some (sampleAlbum [])"
proof -
  have h1: "album (sampleStore (sampleAlbum [])) = Some (sampleAlbum [])"
    by (simp add: sampleStore_def)
  have h2: "[sampleAlbum threePages, lockedAlbum] \<noteq> []" by simp
  have h3: "length [sampleAlbum threePages, lockedAlbum] \<le> 20" by simp
  have k: "(2::nat) \<le> length [sampleAlbum threePages, lockedAlbum]" by simp
  from undo_redo_linear_history [OF h1 h2 h3]
  have "album (undo (fold edit [sampleAlbum threePages, lockedAlbum] (sampleStore (sampleAlbum []))))
          = Some (sampleAlbum threePages)"
    and "album (redo (undo (fold edit [sampleAlbum threePages, lockedAlbum]
                        (sampleStore (sampleAlbum []))))) = Some lockedAlbum"
    and "\<forall>k \<le> length [sampleAlbum threePages, lockedAlbum].
           album ((undo ^^ k) (fold edit [sampleAlbum threePages, lockedAlbum]
                                 (sampleStore (sampleAlbum []))))
             = Some ((sampleAlbum [] # [sampleAlbum threePages, lockedAlbum])
                       ! (length [sampleAlbum threePages, lockedAlbum] - k))"
    by simp_all
  then show ?thesis using h1 k by force
qed

subsection \<open>C5: snapping the left edge to the column grid\<close>
























subsection \<open>C4: bringing an asset to the front or the back\<close>

text \<open>
  C4 as stated fails: on a page whose assets have the stacking orders \<open>-5\<close> and \<open>-3\<close>,
  bringing the first to the front gives it \<open>1\<close>, not \<open>-3 + 1\<close> (the maximum over its
  siblings, or over all assets of the page, plus one): the literal \<open>0\<close> takes part in
  \<^verbatim>\<open>Math.max\<close>.
\<close>

theorem updateAssetZIndex_counterexample:
  "album (updateAssetZIndex 9 ''pA'' ''a1'' Front (sampleStore twoPageAlbum))
     = Some ((sampleAlbum
         [Full ((blankPage ''pA'' 1 ''freeform'')\<lparr>assets := [img ''a1'' 1, img ''a2'' (-3)]\<rparr>),
          Full (blankPage ''pB'' 2 ''freeform'')])\<lparr>updatedAt := 9\<rparr>) \<and>
   Max (zIndex ` set [img ''a2'' (-3)]) + 1 = -2 \<and>
   Max (zIndex ` set [img ''a1'' (-5), img ''a2'' (-3)]) + 1 = -2"
  by (simp add: updateAssetZIndex_def updateAsset_def sampleStore_def twoPageAlbum_def
      sampleAlbum_def locked_def DEFAULT_CONFIG_def blankPage_def setAlbum_def img_def
      mkAsset_def maxZ_def onPage_def)

lemma maxZ_Max: "maxZ as = Max (insert 0 (zIndex ` set as))"
proof -
  have "Max (set (0 # map zIndex as)) = fold max (map zIndex as) 0"
    by (rule Max.set_eq_fold)
  then show ?thesis by (simp add: maxZ_def)
qed

lemma minZ_Min: "minZ as = Min (insert 0 (zIndex ` set as))"
proof -
  have "Min (set (0 # map zIndex as)) = fold min (map zIndex as) 0"
    by (rule Min.set_eq_fold)
  then show ?thesis by (simp add: minZ_def)
qed

text \<open>
  C4, amended. On an unlocked album, for a page found by its id and an asset found on it
  by its id, \<^verbatim>\<open>updateAssetZIndex\<close> with \<^verbatim>\<open>'front'\<close> sets the stacking order of that asset
  to \<open>max(0, m) + 1\<close>, where \<open>m\<close> is the maximum stacking order over all the assets of
  the page, the asset itself included; with \<^verbatim>\<open>'back'\<close> it sets it to \<open>min(0, m') - 1\<close>
  for the minimum \<open>m'\<close>. Every other asset keeps its stacking order, and nothing else
  of the album changes but \<^verbatim>\<open>updatedAt\<close>.
\<close>

theorem updateAssetZIndex_extreme:
  assumes "album s = Some a" and "isLocked (config a) \<noteq> Some True"
    and "find_page pageId (pages a) = Some page"
    and "find (\<lambda>x. asset_id x = assetId) (assets page) = Some asset"
  shows "album (updateAssetZIndex now pageId assetId direction s)
           = Some (a\<lparr>pages :=
                       map (onPage pageId (\<lambda>p. p\<lparr>assets :=
                              map (\<lambda>x. if asset_id x = assetId
                                        then x\<lparr>zIndex :=
                                               (if direction = Front
                                                then Max (insert 0 (zIndex ` set (assets page))) + 1
                                                else Min (insert 0 (zIndex ` set (assets page))) - 1)\<rparr>
                                        else x)
                                  (assets p)\<rparr>))
                         (pages a),
                     updatedAt := now\<rparr>)"
proof -
  have "updateAssetZIndex now pageId assetId direction s
          = updateAsset now pageId assetId
              (\<lambda>x. x\<lparr>zIndex := (if direction = Front
                                   then Max (insert 0 (zIndex ` set (assets page))) + 1
                                   else Min (insert 0 (zIndex ` set (assets page))) - 1)\<rparr>) s"
    using assms by (simp add: updateAssetZIndex_def locked_def maxZ_Max minZ_Min)
  then show ?thesis
    using assms by (simp add: updateAsset_def locked_def setAlbum_def)
qed

theorem updateAssetZIndex_extreme_witness:
  "album (sampleStore twoPageAlbum) = Some twoPageAlbum \<and>
   isLocked (config twoPageAlbum) \<noteq> Some True \<and>
   find_page ''pA'' (pages twoPageAlbum)
     = Some ((blankPage ''pA'' 1 ''freeform'')\<lparr>assets := [img ''a1'' (-5), img ''a2'' (-3)]\<rparr>) \<and>
   find (\<lambda>x. asset_id x = ''a2'') [img ''a1'' (-5), img ''a2'' (-3)] = Some (img ''a2'' (-3)) \<and>
   album (updateAssetZIndex 9 ''pA'' ''a2'' Back (sampleStore twoPageAlbum))
     = Some ((sampleAlbum
         [Full ((blankPage ''pA'' 1 ''freeform'')\<lparr>assets := [img ''a1'' (-5), img ''a2'' (-6)]\<rparr>),
          Full (blankPage ''pB'' 2 ''freeform'')])\<lparr>updatedAt := 9\<rparr>)"
proof -
  let ?page = "(blankPage ''pA'' 1 ''freeform'')\<lparr>assets := [img ''a1'' (-5), img ''a2'' (-3)]\<rparr>"
  have h1: "album (sampleStore twoPageAlbum) = Some twoPageAlbum"
    by (simp add: sampleStore_def)
  have h2: "isLocked (config twoPageAlbum) \<noteq> Some True"
    by (simp add: twoPageAlbum_def sampleAlbum_def DEFAULT_CONFIG_def)
  have h3: "find_page ''pA'' (pages twoPageAlbum) = Some ?page"
    by (simp add: twoPageAlbum_def sampleAlbum_def blankPage_def)
  have h4: "find (\<lambda>x. asset_id x = ''a2'') (assets ?page) = Some (img ''a2'' (-3))"
    by (simp add: img_def mkAsset_def)
  have h4': "find (\<lambda>x. asset_id x = ''a2'') [img ''a1'' (-5), img ''a2'' (-3)] = Some (img ''a2'' (-3))"
    using h4 by simp
  have "album (updateAssetZIndex 9 ''pA'' ''a2'' Back (sampleStore twoPageAlbum))
     = Some ((sampleAlbum
         [Full ((blankPage ''pA'' 1 ''freeform'')\<lparr>assets := [img ''a1'' (-5), img ''a2'' (-6)]\<rparr>),
          Full (blankPage ''pB'' 2 ''freeform'')])\<lparr>updatedAt := 9\<rparr>)"
    unfolding updateAssetZIndex_extreme [OF h1 h2 h3 h4]
    by (simp add: twoPageAlbum_def sampleAlbum_def blankPage_def onPage_def img_def mkAsset_def)
  then show ?thesis using h1 h2 h3 h4' by blast
qed


subsection \<open>C6: applying a single-page layout\<close>

lemma length_fillSingle: "length (fillSingle gen media slots) = length slots"
  by (simp add: fillSingle_def)

lemma fillSingle_nth:
  assumes "i < length slots"
  shows "fillSingle gen media slots ! i
           = updateAssetPosition
               (if i < length media then media ! i
                else createPlaceholder (gen (i - length media)) (z_index (slots ! i)))
               (slots ! i)"
  using assms by (simp add: fillSingle_def nth_enumerate_eq)

text \<open>
  C6. A layout that is not a spread, with the \<open>k\<close> slots \<open>slots\<close>, applied to the target
  page \<open>tp\<close> (the left page, or the page named by a non-empty \<^verbatim>\<open>targetPageId\<close>) whose image
  and video assets are the \<open>m\<close> assets \<open>media\<close>: the page receives its other assets
  unchanged, followed by exactly one asset for each slot. For \<open>i < min m k\<close> the asset
  of the slot \<open>i\<close> is the \<open>i\<close>-th of \<open>media\<close> with its frame set to the slot's
  x/left, y/top, width, height, rotation and z-index, fit mode \<^verbatim>\<open>cover\<close>, crop cleared,
  aspect lock off and scale 1, every other property kept. For \<open>m \<le> i < k\<close> it is a
  generated placeholder (an image with empty url and \<^verbatim>\<open>isPlaceholder\<close> true) with the same
  frame. So \<open>min m k\<close> media assets are kept, \<open>k - m\<close> placeholders are made, and the
  media assets after the first \<open>k\<close> are not part of the result.
\<close>

theorem single_page_layout_application:
  assumes "\<not> is_spread layout"
    and "tp = (case targetPageId of None \<Rightarrow> leftPage
               | Some t \<Rightarrow>
                   if t = [] then leftPage
                   else if page_id leftPage = t then leftPage
                   else (case rightPage of None \<Rightarrow> leftPage
                         | Some rp \<Rightarrow> if page_id rp = t then rp else leftPage))"
    and "media = filter (\<lambda>a. asset_type a = Image \<or> asset_type a = Video) (assets tp)"
    and "others = filter (\<lambda>a. asset_type a \<noteq> Image \<and> asset_type a \<noteq> Video) (assets tp)"
    and "slots = layout_config layout"
  shows "\<exists>positioned.
           calculateLayoutApplication gen layout (Some leftPage) rightPage targetPageId
             = [\<lparr>upd_pageId = page_id tp, upd_assets = others @ positioned,
                 upd_layoutTemplate = layout_name layout\<rparr>] \<and>
           length positioned = length slots \<and>
           (\<forall>i < length slots.
              let sl = slots ! i;
                  px = (case slot_x sl of Some v \<Rightarrow> v
                        | None \<Rightarrow> (case slot_left sl of Some v \<Rightarrow> v | None \<Rightarrow> 0));
                  py = (case slot_y sl of Some v \<Rightarrow> v
                        | None \<Rightarrow> (case slot_top sl of Some v \<Rightarrow> v | None \<Rightarrow> 0));
                  rot = (case slot_rotation sl of Some r \<Rightarrow> r | None \<Rightarrow> 0)
              in positioned ! i
                   = (if i < length media
                      then (media ! i)\<lparr>pos_x := px, pos_y := py, width := slot_width sl,
                                         height := slot_height sl, rotation := rot,
                                         zIndex := z_index sl, fitMode := Some Cover, crop := None,
                                         lockAspectRatio := Some False, scale := Some 1\<rparr>
                      else \<lparr>asset_id = gen (i - length media), asset_type = Image, url = [],
                            pos_x = px, pos_y = py, width = slot_width sl,
                            height = slot_height sl, rotation = rot, scale = Some 1,
                            zIndex = z_index sl, flipX = Some False, flipY = Some False,
                            opacity = Some 100, aspectRatio = None,
                            lockAspectRatio = Some False, pivot = None,
                            isPlaceholder = Some True, fitMode = Some Cover,
                            originalDimensions = None, filter_name = None,
                            filterIntensity = None, fontFamily = None, fontSize = None,
                            fontWeight = None, color = None, borderRadius = None,
                            borderColor = None, borderWidth = Some 0, crop = None,
                            isHidden = None, other_props = []\<rparr>))"
proof (intro exI conjI)
  have tp: "tp = targetPageOf leftPage rightPage targetPageId"
    unfolding assms(2) by (simp add: targetPageOf_def split: option.splits)
  have m: "media = filter isMedia (assets tp)"
    unfolding assms(3) by (simp add: isMedia_def [abs_def])
  have ot: "others = filter (\<lambda>a. \<not> isMedia a) (assets tp)"
    unfolding assms(4) by (simp add: isMedia_def [abs_def])
  show "calculateLayoutApplication gen layout (Some leftPage) rightPage targetPageId
          = [\<lparr>upd_pageId = page_id tp, upd_assets = others @ fillSingle gen media slots,
              upd_layoutTemplate = layout_name layout\<rparr>]"
    using assms(1,5) tp m ot by (simp add: calculateLayoutApplication_def Let_def)
  show "length (fillSingle gen media slots) = length slots"
    by (rule length_fillSingle)
  show "\<forall>i < length slots.
          let sl = slots ! i;
              px = (case slot_x sl of Some v \<Rightarrow> v
                    | None \<Rightarrow> (case slot_left sl of Some v \<Rightarrow> v | None \<Rightarrow> 0));
              py = (case slot_y sl of Some v \<Rightarrow> v
                    | None \<Rightarrow> (case slot_top sl of Some v \<Rightarrow> v | None \<Rightarrow> 0));
              rot = (case slot_rotation sl of Some r \<Rightarrow> r | None \<Rightarrow> 0)
          in fillSingle gen media slots ! i
               = (if i < length media
                  then (media ! i)\<lparr>pos_x := px, pos_y := py, width := slot_width sl,
                                     height := slot_height sl, rotation := rot,
                                     zIndex := z_index sl, fitMode := Some Cover, crop := None,
                                     lockAspectRatio := Some False, scale := Some 1\<rparr>
                  else \<lparr>asset_id = gen (i - length media), asset_type = Image, url = [],
                        pos_x = px, pos_y = py, width = slot_width sl,
                        height = slot_height sl, rotation = rot, scale = Some 1,
                        zIndex = z_index sl, flipX = Some False, flipY = Some False,
                        opacity = Some 100, aspectRatio = None,
                        lockAspectRatio = Some False, pivot = None,
                        isPlaceholder = Some True, fitMode = Some Cover,
                        originalDimensions = None, filter_name = None,
                        filterIntensity = None, fontFamily = None, fontSize = None,
                        fontWeight = None, color = None, borderRadius = None,
                        borderColor = None, borderWidth = Some 0, crop = None,
                        isHidden = None, other_props = []\<rparr>)"
    by (simp add: fillSingle_nth updateAssetPosition_def createPlaceholder_def mkAsset_def
          coalesce0_def Let_def)
qed

theorem single_page_layout_application_witness:
  "\<not> is_spread threeSlotLayout \<and>
   (\<exists>positioned.
      calculateLayoutApplication sampleGen threeSlotLayout (Some fiveImagePage) None None
        = [\<lparr>upd_pageId = page_id fiveImagePage,
            upd_assets = filter (\<lambda>a. asset_type a \<noteq> Image \<and> asset_type a \<noteq> Video)
                           (assets fiveImagePage) @ positioned,
            upd_layoutTemplate = layout_name threeSlotLayout\<rparr>] \<and>
      length positioned = length (layout_config threeSlotLayout)) \<and>
   map (\<lambda>a. (asset_id a, url a, pos_x a, pos_y a, width a, height a, zIndex a, fitMode a,
                  isPlaceholder a))
     (upd_assets (hd (calculateLayoutApplication sampleGen threeSlotLayout
                        (Some fiveImagePage) None None)))
     = [(''t1'', [], 5, 80, 40, 10, 9, None, None),
        (''i1'', ''https://cdn/i1'', 2, 5, 30, 90, 1, Some Cover, None),
        (''i2'', ''https://cdn/i2'', 35, 5, 30, 90, 2, Some Cover, None),
        (''i3'', ''https://cdn/i3'', 68, 5, 30, 90, 3, Some Cover, None)] \<and>
   map (\<lambda>a. (asset_id a, url a, pos_x a, pos_y a, width a, height a, zIndex a, fitMode a,
                  isPlaceholder a))
     (upd_assets (hd (calculateLayoutApplication sampleGen threeSlotLayout
                        (Some oneImagePage) None None)))
     = [(''t1'', [], 5, 80, 40, 10, 9, None, None),
        (''i1'', ''https://cdn/i1'', 2, 5, 30, 90, 1, Some Cover, None),
        (''n'', [], 35, 5, 30, 90, 2, Some Cover, Some True),
        (''nn'', [], 68, 5, 30, 90, 3, Some Cover, Some True)]"
proof -
  have h1: "\<not> is_spread threeSlotLayout" by (simp add: threeSlotLayout_def)
  from single_page_layout_application [OF h1 refl refl refl refl,
         of sampleGen fiveImagePage None None]
  have a: "\<exists>positioned.
      calculateLayoutApplication sampleGen threeSlotLayout (Some fiveImagePage) None None
        = [\<lparr>upd_pageId = page_id fiveImagePage,
            upd_assets = filter (\<lambda>a. asset_type a \<noteq> Image \<and> asset_type a \<noteq> Video)
                           (assets fiveImagePage) @ positioned,
            upd_layoutTemplate = layout_name threeSlotLayout\<rparr>] \<and>
      length positioned = length (layout_config threeSlotLayout)"
    by auto
  have b: "map (\<lambda>a. (asset_id a, url a, pos_x a, pos_y a, width a, height a, zIndex a, fitMode a,
                  isPlaceholder a))
     (upd_assets (hd (calculateLayoutApplication sampleGen threeSlotLayout
                        (Some fiveImagePage) None None)))
     = [(''t1'', [], 5, 80, 40, 10, 9, None, None),
        (''i1'', ''https://cdn/i1'', 2, 5, 30, 90, 1, Some Cover, None),
        (''i2'', ''https://cdn/i2'', 35, 5, 30, 90, 2, Some Cover, None),
        (''i3'', ''https://cdn/i3'', 68, 5, 30, 90, 3, Some Cover, None)]"
    by (simp add: calculateLayoutApplication_def threeSlotLayout_def fiveImagePage_def
        blankPage_def targetPageOf_def isMedia_def img_def caption_def mkAsset_def fillSingle_def
        updateAssetPosition_def coalesce0_def slot3_def Let_def)
  have c: "map (\<lambda>a. (asset_id a, url a, pos_x a, pos_y a, width a, height a, zIndex a, fitMode a,
                  isPlaceholder a))
     (upd_assets (hd (calculateLayoutApplication sampleGen threeSlotLayout
                        (Some oneImagePage) None None)))
     = [(''t1'', [], 5, 80, 40, 10, 9, None, None),
        (''i1'', ''https://cdn/i1'', 2, 5, 30, 90, 1, Some Cover, None),
        (''n'', [], 35, 5, 30, 90, 2, Some Cover, Some True),
        (''nn'', [], 68, 5, 30, 90, 3, Some Cover, Some True)]"
    by (simp add: calculateLayoutApplication_def threeSlotLayout_def oneImagePage_def
        blankPage_def targetPageOf_def isMedia_def img_def caption_def mkAsset_def fillSingle_def
        updateAssetPosition_def createPlaceholder_def sampleGen_def coalesce0_def slot3_def Let_def)
  show ?thesis using h1 a b c by blast
qed

subsection \<open>C10: moving and reordering pages\<close>

lemma forget_withPageNumber: "forgetNumber (withPageNumber n (Some e)) = forgetNumber e"
  by (simp add: forgetNumber_def withPageNumber_def split: PageEntry.splits)

lemma forget_renumber_js:
  "map forgetNumber (renumber_js (map Some ps)) = map forgetNumber ps"
proof (rule nth_equalityI)
  show "length (map forgetNumber (renumber_js (map Some ps))) = length (map forgetNumber ps)"
    by (simp add: renumber_js_def)
next
  fix i assume "i < length (map forgetNumber (renumber_js (map Some ps)))"
  then have i: "i < length ps" by (simp add: renumber_js_def)
  then show "map forgetNumber (renumber_js (map Some ps)) ! i = map forgetNumber ps ! i"
    by (simp add: renumber_js_def nth_enumerate_eq forget_withPageNumber)
qed

lemma splice_move_mset:
  assumes "k < length xs"
  shows "mset (splice_insert (take k xs @ drop (Suc k) xs) j [xs ! k]) = mset xs"
proof -
  let ?rest = "take k xs @ drop (Suc k) xs"
  let ?m = "splice_start j (length ?rest)"
  have "mset (splice_insert ?rest j [xs ! k]) = mset (take ?m ?rest) + mset (drop ?m ?rest) + {#xs ! k#}"
    by (simp add: splice_insert_def Let_def)
  also have "\<dots> = mset (take ?m ?rest @ drop ?m ?rest) + {#xs ! k#}"
    by (simp only: mset_append)
  also have "\<dots> = mset ?rest + {#xs ! k#}" by (simp only: append_take_drop_id)
  also have "\<dots> = mset (take k xs @ xs ! k # drop (Suc k) xs)" by simp
  also have "\<dots> = mset xs" using assms by (simp only: id_take_nth_drop [symmetric])
  finally show ?thesis .
qed

lemma splice_insert_map: "splice_insert (map f xs) j (map f ys) = map f (splice_insert xs j ys)"
  by (simp add: splice_insert_def Let_def take_map drop_map)

lemma move_keeps_pages:
  assumes "splice_start i (length ps) < length ps"
  shows "mset (map forgetNumber
           (renumber_js (splice_insert (map Some (snd (splice_remove1 ps i))) j
                           [fst (splice_remove1 ps i)])))
         = mset (map forgetNumber ps)"
proof -
  let ?k = "splice_start i (length ps)"
  let ?rest = "take ?k ps @ drop (Suc ?k) ps"
  have r: "splice_remove1 ps i = (Some (ps ! ?k), ?rest)"
    using assms by (simp add: splice_remove1_def Let_def)
  have "splice_insert (map Some ?rest) j [Some (ps ! ?k)]
          = map Some (splice_insert ?rest j [ps ! ?k])"
    using splice_insert_map [of Some ?rest j "[ps ! ?k]"] by simp
  then have "map forgetNumber (renumber_js (splice_insert (map Some ?rest) j [Some (ps ! ?k)]))
               = map forgetNumber (splice_insert ?rest j [ps ! ?k])"
    by (simp only: forget_renumber_js)
  then have "mset (map forgetNumber (renumber_js (splice_insert (map Some ?rest) j [Some (ps ! ?k)])))
               = image_mset forgetNumber (mset (splice_insert ?rest j [ps ! ?k]))"
    by simp
  also have "\<dots> = image_mset forgetNumber (mset ps)"
    by (simp only: splice_move_mset [OF assms])
  finally show ?thesis unfolding r fst_conv snd_conv by simp
qed

lemma findIndex_range:
  "findIndex P xs = -1 \<or> (0 \<le> findIndex P xs \<and> findIndex P xs < int (length xs))"
  by (induction xs) (auto simp add: Let_def)

lemma movePage_keeps_pages:
  assumes "album s = Some a"
  shows "\<exists>a'. album (movePage now pageId direction s) = Some a' \<and>
              mset (map forgetNumber (pages a')) = mset (map forgetNumber (pages a))"
proof -
  let ?i = "findIndex (\<lambda>p. entry_id p = Some pageId) (pages a)"
  have rng: "?i = -1 \<or> (0 \<le> ?i \<and> ?i < int (length (pages a)))" by (rule findIndex_range)
  show ?thesis
  proof (cases "?i = -1 \<or> locked a")
    case True
    then show ?thesis using assms by (auto simp add: movePage_def Let_def)
  next
    case False
    with rng have k: "splice_start ?i (length (pages a)) < length (pages a)"
      by (auto simp add: splice_start_def)
    show ?thesis
      using assms False move_keeps_pages [OF k]
      by (auto simp add: movePage_def Let_def setAlbum_def split_def)
  qed
qed

lemma reorderPages_keeps_pages:
  assumes "album s = Some a" and "pages a \<noteq> []" and "fromIndex < int (length (pages a))"
  shows "\<exists>a'. album (reorderPages now fromIndex toIndex s) = Some a' \<and>
              mset (map forgetNumber (pages a')) = mset (map forgetNumber (pages a))"
proof -
  have "0 < length (pages a)" using assms(2) by simp
  then have k: "splice_start fromIndex (length (pages a)) < length (pages a)"
    using assms(3) unfolding splice_start_def by (cases "fromIndex < 0") (simp_all add: max_def, linarith+)
  show ?thesis
    using assms(1) move_keeps_pages [OF k]
    by (auto simp add: reorderPages_def Let_def setAlbum_def split_def)
qed

text \<open>
  C10 fails for \<^verbatim>\<open>reorderPages\<close> with a source index at or beyond the page count. On the
  three-page album, \<^verbatim>\<open>reorderPages(3, 1)\<close> removes nothing (\<^verbatim>\<open>splice\<close> returns an empty
  array, so \<^verbatim>\<open>movedPage\<close> is \<^verbatim>\<open>undefined\<close>) and inserts the spread of \<^verbatim>\<open>undefined\<close> at
  index 1: the album then has four entries, one of them an object with nothing but a
  page number. (\<open>movePage_keeps_pages\<close> and \<open>reorderPages_keeps_pages\<close> above show that
  every \<^verbatim>\<open>movePage\<close>, and every \<^verbatim>\<open>reorderPages\<close> whose source index is below the page
  count of a non-empty album, keeps the pages up to numbering and order.)
\<close>

theorem reorderPages_out_of_range:
  "album (reorderPages 9 3 1 (sampleStore (sampleAlbum threePages)))
     = Some ((sampleAlbum
               [Full (blankPage ''p1'' 1 ''cover-front''), OnlyNumber 2,
                Full (blankPage ''p2'' 3 ''freeform''), Full (blankPage ''p3'' 4 ''cover-back'')])
             \<lparr>updatedAt := 9\<rparr>)"
  by (simp add: reorderPages_def sampleStore_def sampleAlbum_def threePages_def locked_def
      DEFAULT_CONFIG_def splice_remove1_def splice_insert_def splice_start_def renumber_js_def
      withPageNumber_def blankPage_def setAlbum_def)


subsection \<open>C3: moving an asset to another page\<close>

lemma moveAssetToPage_result:
  assumes "album s = Some a" and "isLocked (config a) \<noteq> Some True"
    and "find_page fromPageId (pages a) = Some fromPage"
    and "find (\<lambda>x. asset_id x = assetId) (assets fromPage) = Some asset"
  shows "album (moveAssetToPage now assetId fromPageId toPageId newX newY s)
           = Some (a\<lparr>pages := map (moveEntry assetId fromPageId toPageId
                                       (asset\<lparr>pos_x := newX, pos_y := newY\<rparr>)) (pages a),
                     updatedAt := now\<rparr>)"
  using assms
  by (simp add: moveAssetToPage_def setAlbum_def locked_def moveEntry_def [abs_def])

lemma holds_moveEntry:
  assumes "asset_id moved = assetId" and "fromPageId \<noteq> toPageId"
    and "holds assetId e \<longrightarrow> entry_id e = Some fromPageId"
  shows "holds assetId (moveEntry assetId fromPageId toPageId moved e)
           = (entry_id e = Some toPageId)"
  using assms
  by (cases e) (auto simp add: holds_def moveEntry_def entry_id_def list_ex_iff)

lemma moveAssetToPage_transfers:
  assumes "album s = Some a" and "isLocked (config a) \<noteq> Some True"
    and "find_page fromPageId (pages a) = Some fromPage"
    and "find (\<lambda>x. asset_id x = assetId) (assets fromPage) = Some asset"
    and "fromPageId \<noteq> toPageId"
    and "\<forall>e \<in> set (pages a). holds assetId e \<longrightarrow> entry_id e = Some fromPageId"
  shows "\<exists>a'. album (moveAssetToPage now assetId fromPageId toPageId newX newY s) = Some a' \<and>
              holders assetId (pages a')
                = length (filter (\<lambda>e. entry_id e = Some toPageId) (pages a))"
proof -
  let ?moved = "asset\<lparr>pos_x := newX, pos_y := newY\<rparr>"
  have id: "asset_id ?moved = assetId"
    using assms(4) by (auto simp add: find_Some_iff)
  have "filter (holds assetId) (map (moveEntry assetId fromPageId toPageId ?moved) (pages a))
          = map (moveEntry assetId fromPageId toPageId ?moved)
              (filter (\<lambda>e. entry_id e = Some toPageId) (pages a))"
    unfolding filter_map comp_def
    using assms(6) holds_moveEntry [OF id assms(5)]
    by (intro arg_cong [where f = "map _"] filter_cong) auto
  then have "holders assetId (map (moveEntry assetId fromPageId toPageId ?moved) (pages a))
               = length (filter (\<lambda>e. entry_id e = Some toPageId) (pages a))"
    by (simp add: holders_def)
  then show ?thesis
    using moveAssetToPage_result [OF assms(1-4)] by simp
qed

text \<open>
  C3 fails when no page has the destination id, and when the destination is the source
  page: the asset \<open>a1\<close> is on exactly one page before the call and on none after it.
  (\<open>moveAssetToPage_transfers\<close> above: with a destination different from the source, the
  pages that hold the asset afterwards are exactly the pages with the destination id.)
\<close>

theorem moveAssetToPage_loses_asset:
  "holders ''a1'' (pages twoPageAlbum) = 1 \<and>
   album (moveAssetToPage 9 ''a1'' ''pA'' ''pZ'' 30 40 (sampleStore twoPageAlbum))
     = Some ((sampleAlbum
               [Full ((blankPage ''pA'' 1 ''freeform'')\<lparr>assets := [img ''a2'' (-3)]\<rparr>),
                Full (blankPage ''pB'' 2 ''freeform'')])\<lparr>updatedAt := 9\<rparr>) \<and>
   holders ''a1'' [Full ((blankPage ''pA'' 1 ''freeform'')\<lparr>assets := [img ''a2'' (-3)]\<rparr>),
                   Full (blankPage ''pB'' 2 ''freeform'')] = 0 \<and>
   album (moveAssetToPage 9 ''a1'' ''pA'' ''pA'' 30 40 (sampleStore twoPageAlbum))
     = Some ((sampleAlbum
               [Full ((blankPage ''pA'' 1 ''freeform'')\<lparr>assets := [img ''a2'' (-3)]\<rparr>),
                Full (blankPage ''pB'' 2 ''freeform'')])\<lparr>updatedAt := 9\<rparr>)"
  by (simp add: moveAssetToPage_def sampleStore_def twoPageAlbum_def sampleAlbum_def locked_def
      DEFAULT_CONFIG_def blankPage_def setAlbum_def img_def mkAsset_def holders_def holds_def)

subsection \<open>C8: the pairing of pages into spreads\<close>

lemma getSpread_right_member:
  assumes "album s = Some a" and "getSpread s i = [p, q]"
    and "entry_template q \<noteq> Some ''cover-front''"
  shows "\<exists>j. at_index (pages a) j = Some q \<and> getSpread s j = [p, q]"
proof (cases "i mod 2 = 1")
  case True
  have "at_index (pages a) (i + 1) = Some q \<and> getSpread s (i + 1) = [p, q]"
    using assms True
    by (auto simp add: getSpread_def Let_def split: option.splits if_splits)
       (auto simp add: at_index_def split: if_splits, presburger+)
  then show ?thesis by blast
next
  case False
  have "at_index (pages a) i = Some q"
    using assms False
    by (auto simp add: getSpread_def Let_def split: option.splits if_splits)
  then show ?thesis using assms(2) by blast
qed


text \<open>
  C8 fails on an album with a front-cover page at an even index: \<^verbatim>\<open>getSpread(1)\<close> pairs
  the page at index 1 with the cover at index 2 (the odd branch only excludes a back
  cover), while \<^verbatim>\<open>getSpread(2)\<close> shows that cover alone. (\<open>getSpread_right_member\<close> above:
  the pair is returned again at the index of its second page whenever that page is not
  a front cover.)
\<close>

theorem getSpread_pair_not_symmetric:
  "getSpread (sampleStore coverAlbum) 1
     = [Full (blankPage ''p2'' 2 ''freeform''), Full (blankPage ''p3'' 3 ''cover-front'')] \<and>
   at_index (pages coverAlbum) 2 = Some (Full (blankPage ''p3'' 3 ''cover-front'')) \<and>
   getSpread (sampleStore coverAlbum) 2 = [Full (blankPage ''p3'' 3 ''cover-front'')]"
  by (simp add: getSpread_def sampleStore_def coverAlbum_def sampleAlbum_def at_index_def
       DEFAULT_CONFIG_def entry_template_def blankPage_def)

subsection \<open>C7: the normalizer and exceptions\<close>

lemma normalizePageData_assets_fallback:
  "\<exists>box rest. normalizePageData env [(''layout_config'', JArr []), (''assets'', JArr [specRow])]
                  = Inr (JObj rest) \<and>
      map_of rest ''layoutConfig'' = Some (JArr [box]) \<and>
      map_of rest ''assets'' = Some (JArr []) \<and>
      field box ''left'' = JNum 10 \<and> field box ''top'' = JNum 10 \<and>
      field box ''width'' = JNum 20 \<and> field box ''height'' = JNum 20 \<and>
      field box ''zIndex'' = JNum 5 \<and> field (field box ''content'') ''url'' = JStr ''u''"
  by (simp add: normalizePageData_def unifiedPage_def safeParse_def field_def truthy_def js_or_def
       js_nn_def nonEmptyArray_def isArray_def spreadArr_def Let_def nullish_def assetToBox_def
       visualBox_def opt_def gt0_def Number_def specRow_def objE_def to_stringE_def)


text \<open>
  C7 fails: \<^verbatim>\<open>normalizePageData\<close> throws a TypeError on a record whose \<^verbatim>\<open>layout_config\<close>
  is an empty array and whose \<^verbatim>\<open>text_layers\<close> is an object (the array spread
  \<^verbatim>\<open>[...finalLayoutArray, ...textArray]\<close> needs an iterable), and on a legacy record whose
  \<^verbatim>\<open>assets\<close> array has a \<^verbatim>\<open>null\<close> element (the callback reads \<^verbatim>\<open>a.asset_type\<close>).
  (\<open>normalizePageData_assets_fallback\<close> above is the fallback from an empty layout to the
  \<^verbatim>\<open>assets\<close> column on a well-formed record.)
\<close>

theorem normalizePageData_throws:
  "normalizePageData env [(''layout_config'', JArr []), (''text_layers'', JObj [])] = Inl TypeError \<and>
   normalizePageData env [(''assets'', JArr [JNull])] = Inl TypeError"
  by (simp add: normalizePageData_def unifiedPage_def legacyPage_def safeParse_def field_def
       truthy_def js_or_def nonEmptyArray_def isArray_def spreadArr_def Let_def legacyAsset_def
       nullish_def)

end
